theory Spec2Isabelle
  imports Main
begin

section \<open>Alicloud botanist: infrastructure deploy and backup destroy\<close>

text \<open>
  A shallow embedding of \<^verbatim>\<open>infrastructure.go\<close> of the Alicloud botanist
  (\<^verbatim>\<open>package alicloudbotanist\<close>). The Go methods talk to four collaborators: the
  provider client, the terraformer (the convergence engine), the object storage client and
  the logger. Each collaborator call is a function of an explicit world \<open>'w\<close> that returns
  its answer together with the next world. Every modelled function also returns the list of
  collaborator calls it made, in order, each with the answer it got, so that statements of
  the kind "Destroy is never called" are statements about that list.
\<close>

subsection \<open>Values exchanged with the collaborators\<close>

text \<open>A Go \<^verbatim>\<open>error\<close> value; \<^verbatim>\<open>nil\<close> is \<open>None\<close> of \<open>error option\<close>.\<close>

datatype error = Error string

text \<open>Run-time panics of the Go code: a nil pointer that is dereferenced (named by the
  field that was nil) and a slice index out of range (index and length).\<close>

datatype panic = NilPointerDereference string | IndexOutOfRange nat nat

datatype 'a outcome = Return 'a | Panics panic

text \<open>A Go \<^verbatim>\<open>map[string]string\<close> (or \<^verbatim>\<open>map[string][]byte\<close>) that is only read by
  key: an association list. Reading a missing key gives the zero value, the empty string.\<close>

type_synonym strmap = "(string \<times> string) list"

definition index :: "strmap \<Rightarrow> string \<Rightarrow> string" where
  "index m k = (case map_of m k of None \<Rightarrow> [] | Some v \<Rightarrow> v)"

record Secret =
  Data :: strmap

record ZoneValues =
  zone_name :: string
  zone_cidr_worker :: string

text \<open>The value tree built by \<^verbatim>\<open>generateTerraformInfraConfig\<close>, one field per leaf:
  \<^verbatim>\<open>alicloud.region\<close>, \<^verbatim>\<open>create.vpc\<close>, the five entries of \<^verbatim>\<open>vpc\<close>,
  \<^verbatim>\<open>clusterName\<close>, \<^verbatim>\<open>sshPublicKey\<close> and \<^verbatim>\<open>zones\<close>.\<close>

record InfraConfig =
  alicloud_region :: string
  create_vpc :: bool
  vpc_cidr :: string
  vpc_id :: string
  vpc_natGatewayID :: string
  vpc_snatTableID :: string
  vpc_internetChargeType :: string
  clusterName :: string
  sshPublicKey :: string
  zones :: "ZoneValues list"

text \<open>The terraformer handle. \<^verbatim>\<open>SetVariablesEnvironment\<close> and \<^verbatim>\<open>InitializeWith\<close>
  return the handle they were called on, with the environment and the chart (name and
  values) bound to it; \<^verbatim>\<open>Apply\<close> and \<^verbatim>\<open>Destroy\<close> then run the job.\<close>

record Terraformer =
  purpose :: string
  variablesEnvironment :: strmap
  initializedWith :: "(string \<times> InfraConfig) option"

definition SetVariablesEnvironment :: "strmap \<Rightarrow> Terraformer \<Rightarrow> Terraformer" where
  "SetVariablesEnvironment tfEnv tf = tf\<lparr>variablesEnvironment := tfEnv\<rparr>"

definition InitializeWith :: "string \<times> InfraConfig \<Rightarrow> Terraformer \<Rightarrow> Terraformer" where
  "InitializeWith initializer tf = tf\<lparr>initializedWith := Some initializer\<rparr>"

definition ChartInitializer :: "string \<Rightarrow> InfraConfig \<Rightarrow> string \<times> InfraConfig" where
  "ChartInitializer chartName vals = (chartName, vals)"

datatype OssClient = OssClient string string string

datatype OssBucket = OssBucket OssClient string

record ObjectProperties =
  Key :: string

record ListObjectsResult =
  Objects :: "ObjectProperties list"
  IsTruncated :: bool

subsection \<open>The collaborators\<close>

text \<open>The stateful collaborators, as functions of the world. \<open>GetCIDR\<close>,
  \<open>GetNatGatewayInfo\<close> and \<open>GetEIPInternetChargeType\<close> are the methods of
  \<^verbatim>\<open>b.AlicloudClient\<close>; \<open>oss_New\<close> is \<^verbatim>\<open>oss.New\<close>; \<open>Infof\<close> is \<^verbatim>\<open>b.Logger.Infof\<close>.\<close>

record 'w env =
  GetCIDR :: "string \<Rightarrow> 'w \<Rightarrow> (error + string) \<times> 'w"
  GetNatGatewayInfo :: "string \<Rightarrow> 'w \<Rightarrow> (error + string \<times> string) \<times> 'w"
  GetEIPInternetChargeType :: "string \<Rightarrow> 'w \<Rightarrow> (error + string) \<times> 'w"
  NewShootTerraformer :: "string \<Rightarrow> 'w \<Rightarrow> (error + Terraformer) \<times> 'w"
  NewBackupInfrastructureTerraformer :: "'w \<Rightarrow> (error + Terraformer) \<times> 'w"
  GetStateOutputVariables :: "Terraformer \<Rightarrow> string list \<Rightarrow> 'w \<Rightarrow> (error + strmap) \<times> 'w"
  Apply :: "Terraformer \<Rightarrow> 'w \<Rightarrow> error option \<times> 'w"
  Destroy :: "Terraformer \<Rightarrow> 'w \<Rightarrow> error option \<times> 'w"
  oss_New :: "string \<Rightarrow> string \<Rightarrow> string \<Rightarrow> 'w \<Rightarrow> (error + OssClient) \<times> 'w"
  Bucket :: "OssClient \<Rightarrow> string \<Rightarrow> 'w \<Rightarrow> (error + OssBucket) \<times> 'w"
  ListObjects :: "OssBucket \<Rightarrow> 'w \<Rightarrow> (error + ListObjectsResult) \<times> 'w"
  DeleteObjects :: "OssBucket \<Rightarrow> string list \<Rightarrow> 'w \<Rightarrow> error option \<times> 'w"
  Infof :: "string \<Rightarrow> 'w \<Rightarrow> 'w"

text \<open>The names that \<^verbatim>\<open>infrastructure.go\<close> takes from other files and packages, whose
  values are not part of the file: the package constants \<^verbatim>\<open>BucketName\<close>,
  \<^verbatim>\<open>StorageEndpoint\<close>, \<^verbatim>\<open>AccessKeyID\<close>, \<^verbatim>\<open>AccessKeySecret\<close>,
  \<^verbatim>\<open>common.TerraformerPurposeInfra\<close>, \<^verbatim>\<open>alicloud.DefaultInternetChargeType\<close>,
  \<^verbatim>\<open>secrets.DataKeySSHAuthorizedKeys\<close>, the two error recognisers
  \<^verbatim>\<open>terraformer.IsVariablesNotFoundError\<close> and \<^verbatim>\<open>apierrors.IsNotFound\<close>, and the pure
  function \<^verbatim>\<open>terraformer.GenerateVariablesEnvironment\<close>. They are parameters of the
  model.\<close>

record pkg =
  BucketName :: string
  StorageEndpoint :: string
  AccessKeyID :: string
  AccessKeySecret :: string
  TerraformerPurposeInfra :: string
  DefaultInternetChargeType :: string
  DataKeySSHAuthorizedKeys :: string
  IsVariablesNotFoundError :: "error \<Rightarrow> bool"
  IsNotFound :: "error \<Rightarrow> bool"
  GenerateVariablesEnvironment :: "Secret \<Rightarrow> strmap \<Rightarrow> strmap"

text \<open>The fields of the botanist \<^verbatim>\<open>b\<close> that the file reads.
  \<open>Shoot_Region\<close> is \<^verbatim>\<open>b.Shoot.Info.Spec.Cloud.Region\<close>; \<open>Zones\<close>, \<open>Networks_Workers\<close>,
  \<open>Networks_VPC_ID\<close> and \<open>Networks_VPC_CIDR\<close> are the fields of
  \<^verbatim>\<open>b.Shoot.Info.Spec.Cloud.Alicloud\<close> (the last two are pointers, \<open>None\<close> is nil);
  \<open>Secrets\<close> is the map \<^verbatim>\<open>b.Secrets\<close> from names to secret pointers. The pointers on the
  way to these fields (\<^verbatim>\<open>b.Shoot\<close>, \<^verbatim>\<open>Cloud.Alicloud\<close>, \<^verbatim>\<open>b.Seed.Secret\<close>) are taken
  to be non-nil.\<close>

record AlicloudBotanist =
  Shoot_Region :: string
  Zones :: "string list"
  Networks_Workers :: "string list"
  Networks_VPC_ID :: "string option"
  Networks_VPC_CIDR :: "string option"
  Shoot_SeedNamespace :: string
  Shoot_Secret :: Secret
  Secrets :: "string \<Rightarrow> Secret option"
  Seed_Secret :: Secret

subsection \<open>The calls a run makes\<close>

datatype event =
    CallGetCIDR string "error + string"
  | CallGetNatGatewayInfo string "error + string \<times> string"
  | CallGetEIPInternetChargeType string "error + string"
  | CallNewShootTerraformer string "error + Terraformer"
  | CallNewBackupInfrastructureTerraformer "error + Terraformer"
  | CallGetStateOutputVariables Terraformer "string list" "error + strmap"
  | CallApply Terraformer "error option"
  | CallDestroy Terraformer "error option"
  | CallOssNew string string string "error + OssClient"
  | CallBucket OssClient string "error + OssBucket"
  | CallListObjects OssBucket "error + ListObjectsResult"
  | CallDeleteObjects OssBucket "string list" "error option"
  | CallInfof string

subsection \<open>Purging the bucket: \<^verbatim>\<open>cleanSnapshots\<close>\<close>

text \<open>The \<^verbatim>\<open>for { ... }\<close> loop of \<^verbatim>\<open>cleanSnapshots\<close> has no bound of its own: it runs
  until a page is not truncated or a call fails. The model takes fuel, the number of
  iterations it may start; the result \<open>None\<close> says that the loop was still running when the
  fuel was used up, and the world and the calls made so far are returned with it.\<close>

fun cleanSnapshots_loop ::
  "nat \<Rightarrow> 'w env \<Rightarrow> OssBucket \<Rightarrow> 'w \<Rightarrow> error option option \<times> 'w \<times> event list" where
  "cleanSnapshots_loop 0 env bucket w = (None, w, [])"
| "cleanSnapshots_loop (Suc n) env bucket w =
     (case ListObjects env bucket w of
        (Inl err, w1) \<Rightarrow> (Some (Some err), w1, [CallListObjects bucket (Inl err)])
      | (Inr lsRes, w1) \<Rightarrow>
          (let snapshots = map Key (Objects lsRes) in
           case DeleteObjects env bucket snapshots w1 of
             (Some err, w2) \<Rightarrow>
               (Some (Some err), w2,
                [CallListObjects bucket (Inr lsRes), CallDeleteObjects bucket snapshots (Some err)])
           | (None, w2) \<Rightarrow>
               if \<not> IsTruncated lsRes then
                 (Some None, w2,
                  [CallListObjects bucket (Inr lsRes), CallDeleteObjects bucket snapshots None])
               else
                 (case cleanSnapshots_loop n env bucket w2 of
                    (r, w3, evs) \<Rightarrow>
                      (r, w3,
                       CallListObjects bucket (Inr lsRes)
                       # CallDeleteObjects bucket snapshots None # evs))))"

definition cleanSnapshots ::
  "nat \<Rightarrow> 'w env \<Rightarrow> string \<Rightarrow> string \<Rightarrow> string \<Rightarrow> string \<Rightarrow> 'w
     \<Rightarrow> error option option \<times> 'w \<times> event list" where
  "cleanSnapshots fuel env bucketName storageEndpoint accessKeyID accessKeySecret w =
     (case oss_New env storageEndpoint accessKeyID accessKeySecret w of
        (Inl err, w1) \<Rightarrow>
          (Some (Some err), w1,
           [CallOssNew storageEndpoint accessKeyID accessKeySecret (Inl err)])
      | (Inr client, w1) \<Rightarrow>
          (case Bucket env client bucketName w1 of
             (Inl err, w2) \<Rightarrow>
               (Some (Some err), w2,
                [CallOssNew storageEndpoint accessKeyID accessKeySecret (Inr client),
                 CallBucket client bucketName (Inl err)])
           | (Inr bucket, w2) \<Rightarrow>
               (case cleanSnapshots_loop fuel env bucket w2 of
                  (r, w3, evs) \<Rightarrow>
                    (r, w3,
                     CallOssNew storageEndpoint accessKeyID accessKeySecret (Inr client)
                     # CallBucket client bucketName (Inr bucket) # evs))))"

subsection \<open>Backup destroy\<close>

definition generateTerraformBackupVariablesEnvironment :: "pkg \<Rightarrow> AlicloudBotanist \<Rightarrow> strmap" where
  "generateTerraformBackupVariablesEnvironment k b =
     GenerateVariablesEnvironment k (Seed_Secret b)
       [(''ACCESS_KEY_ID'', AccessKeyID k), (''ACCESS_KEY_SECRET'', AccessKeySecret k)]"

definition skipMessage :: string where
  "skipMessage = ''Skipping Alicloud backup storage bucket deletion because no storage endpoint has been found in the Terraform state.''"

definition DestroyBackupInfrastructure ::
  "nat \<Rightarrow> pkg \<Rightarrow> 'w env \<Rightarrow> AlicloudBotanist \<Rightarrow> 'w \<Rightarrow> error option option \<times> 'w \<times> event list" where
  "DestroyBackupInfrastructure fuel k env b w =
     (case NewBackupInfrastructureTerraformer env w of
        (Inl err, w1) \<Rightarrow> (Some (Some err), w1, [CallNewBackupInfrastructureTerraformer (Inl err)])
      | (Inr tf, w1) \<Rightarrow>
          (case GetStateOutputVariables env tf [BucketName k, StorageEndpoint k] w1 of
             (Inl err, w2) \<Rightarrow>
               if IsVariablesNotFoundError k err then
                 (Some None, Infof env skipMessage w2,
                  [CallNewBackupInfrastructureTerraformer (Inr tf),
                   CallGetStateOutputVariables tf [BucketName k, StorageEndpoint k] (Inl err),
                   CallInfof skipMessage])
               else
                 (Some (Some err), w2,
                  [CallNewBackupInfrastructureTerraformer (Inr tf),
                   CallGetStateOutputVariables tf [BucketName k, StorageEndpoint k] (Inl err)])
           | (Inr stateVariables, w2) \<Rightarrow>
               (case cleanSnapshots fuel env
                       (index stateVariables (BucketName k))
                       (index stateVariables (StorageEndpoint k))
                       (index (Data (Seed_Secret b)) (AccessKeyID k))
                       (index (Data (Seed_Secret b)) (AccessKeySecret k)) w2 of
                  (None, w3, evs) \<Rightarrow>
                    (None, w3,
                     CallNewBackupInfrastructureTerraformer (Inr tf)
                     # CallGetStateOutputVariables tf [BucketName k, StorageEndpoint k]
                         (Inr stateVariables) # evs)
                | (Some (Some err), w3, evs) \<Rightarrow>
                    (Some (Some err), w3,
                     CallNewBackupInfrastructureTerraformer (Inr tf)
                     # CallGetStateOutputVariables tf [BucketName k, StorageEndpoint k]
                         (Inr stateVariables) # evs)
                | (Some None, w3, evs) \<Rightarrow>
                    (let tf' = SetVariablesEnvironment
                                 (generateTerraformBackupVariablesEnvironment k b) tf in
                     case Destroy env tf' w3 of
                       (r, w4) \<Rightarrow>
                         (Some r, w4,
                          CallNewBackupInfrastructureTerraformer (Inr tf)
                          # CallGetStateOutputVariables tf [BucketName k, StorageEndpoint k]
                              (Inr stateVariables) # evs @ [CallDestroy tf' r])))))"

subsection \<open>Resolving the internet charge type\<close>

definition fetchEIPInternetChargeType ::
  "pkg \<Rightarrow> 'w env \<Rightarrow> 'w \<Rightarrow> (error + string) \<times> 'w \<times> event list" where
  "fetchEIPInternetChargeType k env w =
     (let vpcID = ''vpc_id'' in
      case NewShootTerraformer env (TerraformerPurposeInfra k) w of
        (Inl err, w1) \<Rightarrow>
          (Inl err, w1, [CallNewShootTerraformer (TerraformerPurposeInfra k) (Inl err)])
      | (Inr tf, w1) \<Rightarrow>
          (case GetStateOutputVariables env tf [vpcID] w1 of
             (Inl err, w2) \<Rightarrow>
               (if IsNotFound k err then Inr (DefaultInternetChargeType k) else Inl err, w2,
                [CallNewShootTerraformer (TerraformerPurposeInfra k) (Inr tf),
                 CallGetStateOutputVariables tf [vpcID] (Inl err)])
           | (Inr stateVariables, w2) \<Rightarrow>
               (case GetEIPInternetChargeType env (index stateVariables vpcID) w2 of
                  (r, w3) \<Rightarrow>
                    (r, w3,
                     [CallNewShootTerraformer (TerraformerPurposeInfra k) (Inr tf),
                      CallGetStateOutputVariables tf [vpcID] (Inr stateVariables),
                      CallGetEIPInternetChargeType (index stateVariables vpcID) r]))))"

subsection \<open>Building the configuration\<close>

text \<open>The \<^verbatim>\<open>for idx, zone := range ...Zones\<close> loop: it appends one entry per zone and
  reads \<^verbatim>\<open>Networks.Workers[idx]\<close>, which panics when the index is out of range.\<close>

fun zones_loop ::
  "nat \<Rightarrow> string list \<Rightarrow> string list \<Rightarrow> ZoneValues list \<Rightarrow> ZoneValues list outcome" where
  "zones_loop idx [] workers zs = Return zs"
| "zones_loop idx (zone # rest) workers zs =
     (if idx < length workers then
        zones_loop (Suc idx) rest workers
          (zs @ [\<lparr>zone_name = zone, zone_cidr_worker = workers ! idx\<rparr>])
      else Panics (IndexOutOfRange idx (length workers)))"

definition generateTerraformInfraConfig ::
  "pkg \<Rightarrow> 'w env \<Rightarrow> AlicloudBotanist \<Rightarrow> bool \<Rightarrow> string \<Rightarrow> string \<Rightarrow> string \<Rightarrow> string \<Rightarrow> 'w
     \<Rightarrow> (error + InfraConfig) outcome \<times> 'w \<times> event list" where
  "generateTerraformInfraConfig k env b createVPC vpcID natGatewayID snatTableID vpcCIDR w =
     (case fetchEIPInternetChargeType k env w of
        (Inl err, w1, evs) \<Rightarrow> (Return (Inl err), w1, evs)
      | (Inr chargeType, w1, evs) \<Rightarrow>
          (let sshSecret = Secrets b ''ssh-keypair'' in
           case zones_loop 0 (Zones b) (Networks_Workers b) [] of
             Panics p \<Rightarrow> (Panics p, w1, evs)
           | Return zs \<Rightarrow>
               (case sshSecret of
                  None \<Rightarrow> (Panics (NilPointerDereference ''sshSecret''), w1, evs)
                | Some s \<Rightarrow>
                    (Return (Inr
                       \<lparr>alicloud_region = Shoot_Region b,
                        create_vpc = createVPC,
                        vpc_cidr = vpcCIDR,
                        vpc_id = vpcID,
                        vpc_natGatewayID = natGatewayID,
                        vpc_snatTableID = snatTableID,
                        vpc_internetChargeType = chargeType,
                        clusterName = Shoot_SeedNamespace b,
                        sshPublicKey = index (Data s) (DataKeySSHAuthorizedKeys k),
                        zones = zs\<rparr>), w1, evs))))"

subsection \<open>Infrastructure deploy\<close>

definition generateTerraformInfraVariablesEnvironment :: "pkg \<Rightarrow> AlicloudBotanist \<Rightarrow> strmap" where
  "generateTerraformInfraVariablesEnvironment k b =
     GenerateVariablesEnvironment k (Shoot_Secret b)
       [(''ACCESS_KEY_ID'', AccessKeyID k), (''ACCESS_KEY_SECRET'', AccessKeySecret k)]"

text \<open>\<^verbatim>\<open>DeployInfrastructure\<close>, in two parts. The first part is the function up to the
  end of \<^verbatim>\<open>if ...VPC.ID != nil { ... } else { ... }\<close>: it gives the five variables
  \<^verbatim>\<open>createVPC\<close>, \<^verbatim>\<open>vpcID\<close>, \<^verbatim>\<open>natGatewayID\<close>, \<^verbatim>\<open>snatTableID\<close> and \<^verbatim>\<open>vpcCIDR\<close> as
  they are after it, or the error that the function returns from inside it, or the panic
  of \<^verbatim>\<open>*...VPC.CIDR\<close> on a nil pointer. \<^verbatim>\<open>*...VPC.ID\<close> is read only where the pointer was
  tested to be non-nil.\<close>

definition DeployInfrastructure_variables ::
  "'w env \<Rightarrow> AlicloudBotanist \<Rightarrow> 'w
     \<Rightarrow> (error + bool \<times> string \<times> string \<times> string \<times> string) outcome \<times> 'w \<times> event list" where
  "DeployInfrastructure_variables env b w =
     (let createVPC = True;
          vpcID = ''${alicloud_vpc.vpc.id}'';
          natGatewayID = ''${alicloud_nat_gateway.nat_gateway.id}'';
          snatTableID = ''${alicloud_nat_gateway.nat_gateway.snat_table_ids}''
      in
      case Networks_VPC_ID b of
        Some existingID \<Rightarrow>
          (case GetCIDR env existingID w of
             (Inl err, w1) \<Rightarrow> (Return (Inl err), w1, [CallGetCIDR existingID (Inl err)])
           | (Inr vpcCIDR, w1) \<Rightarrow>
               (case GetNatGatewayInfo env existingID w1 of
                  (Inl err, w2) \<Rightarrow>
                    (Return (Inl err), w2,
                     [CallGetCIDR existingID (Inr vpcCIDR),
                      CallGetNatGatewayInfo existingID (Inl err)])
                | (Inr (natGatewayID', snatTableID'), w2) \<Rightarrow>
                    (Return (Inr (False, existingID, natGatewayID', snatTableID', vpcCIDR)), w2,
                     [CallGetCIDR existingID (Inr vpcCIDR),
                      CallGetNatGatewayInfo existingID (Inr (natGatewayID', snatTableID'))])))
      | None \<Rightarrow>
          (case Networks_VPC_CIDR b of
             None \<Rightarrow> (Panics (NilPointerDereference ''VPC.CIDR''), w, [])
           | Some vpcCIDR \<Rightarrow>
               (Return (Inr (createVPC, vpcID, natGatewayID, snatTableID, vpcCIDR)), w, [])))"

definition DeployInfrastructure ::
  "pkg \<Rightarrow> 'w env \<Rightarrow> AlicloudBotanist \<Rightarrow> 'w \<Rightarrow> error option outcome \<times> 'w \<times> event list" where
  "DeployInfrastructure k env b w =
     (case DeployInfrastructure_variables env b w of
        (Panics p, w', evs) \<Rightarrow> (Panics p, w', evs)
      | (Return (Inl err), w', evs) \<Rightarrow> (Return (Some err), w', evs)
      | (Return (Inr (createVPC, vpcID, natGatewayID, snatTableID, vpcCIDR)), w', evs) \<Rightarrow>
          (case NewShootTerraformer env (TerraformerPurposeInfra k) w' of
             (Inl err, w1) \<Rightarrow>
               (Return (Some err), w1,
                evs @ [CallNewShootTerraformer (TerraformerPurposeInfra k) (Inl err)])
           | (Inr tf, w1) \<Rightarrow>
               (case generateTerraformInfraConfig k env b
                       createVPC vpcID natGatewayID snatTableID vpcCIDR w1 of
                  (Panics p, w2, evs2) \<Rightarrow>
                    (Panics p, w2,
                     evs @ CallNewShootTerraformer (TerraformerPurposeInfra k) (Inr tf) # evs2)
                | (Return (Inl err), w2, evs2) \<Rightarrow>
                    (Return (Some err), w2,
                     evs @ CallNewShootTerraformer (TerraformerPurposeInfra k) (Inr tf) # evs2)
                | (Return (Inr vals), w2, evs2) \<Rightarrow>
                    (let tf' = InitializeWith (ChartInitializer ''alicloud-infra'' vals)
                                 (SetVariablesEnvironment
                                    (generateTerraformInfraVariablesEnvironment k b) tf)
                     in
                     case Apply env tf' w2 of
                       (r, w3) \<Rightarrow>
                         (Return r, w3,
                          evs @ CallNewShootTerraformer (TerraformerPurposeInfra k) (Inr tf)
                            # evs2 @ [CallApply tf' r])))))"

subsection \<open>Observations on the calls of a run\<close>

fun isDestroyCall :: "event \<Rightarrow> bool" where
  "isDestroyCall (CallDestroy tf r) = True"
| "isDestroyCall ev = False"


fun purgeFailure :: "event \<Rightarrow> error option" where
  "purgeFailure (CallListObjects bk (Inl err)) = Some err"
| "purgeFailure (CallDeleteObjects bk ks (Some err)) = Some err"
| "purgeFailure ev = None"

fun isDiscoveryCall :: "event \<Rightarrow> bool" where
  "isDiscoveryCall (CallGetCIDR vpcID r) = True"
| "isDiscoveryCall (CallGetNatGatewayInfo vpcID r) = True"
| "isDiscoveryCall ev = False"

fun isApplyCall :: "event \<Rightarrow> bool" where
  "isApplyCall (CallApply tf r) = True"
| "isApplyCall ev = False"

subsection \<open>The purge as rounds of list and delete\<close>

text \<open>The calls of a purge that goes through the pages \<open>ps\<close>: for each page one
  \<^verbatim>\<open>ListObjects\<close> call that returns it and one \<^verbatim>\<open>DeleteObjects\<close> call with exactly the
  keys of that page. The deletes before the last one succeed; \<open>r\<close> is the answer to the
  last.\<close>

fun purge_rounds :: "OssBucket \<Rightarrow> ListObjectsResult list \<Rightarrow> error option \<Rightarrow> event list" where
  "purge_rounds bucket [] r = []"
| "purge_rounds bucket [p] r =
     [CallListObjects bucket (Inr p), CallDeleteObjects bucket (map Key (Objects p)) r]"
| "purge_rounds bucket (p # ps) r =
     CallListObjects bucket (Inr p) # CallDeleteObjects bucket (map Key (Objects p)) None
     # purge_rounds bucket ps r"

text \<open>The bucket delivers the pages \<open>ps\<close> from the world \<open>w\<close>: the list calls return the
  pages one after the other, each after the keys of the page before it were deleted with
  success; the delete of the keys of the last page answers \<open>r\<close> and leaves the world
  \<open>w'\<close> (the last argument is the pair of both).\<close>

fun delivers ::
  "'w env \<Rightarrow> OssBucket \<Rightarrow> 'w \<Rightarrow> ListObjectsResult list \<Rightarrow> error option \<times> 'w \<Rightarrow> bool" where
  "delivers env bucket w [] rw = False"
| "delivers env bucket w [p] rw =
     (case ListObjects env bucket w of
        (Inr q, w1) \<Rightarrow> q = p \<and> DeleteObjects env bucket (map Key (Objects p)) w1 = rw
      | (Inl err, w1) \<Rightarrow> False)"
| "delivers env bucket w (p # ps) rw =
     (case ListObjects env bucket w of
        (Inr q, w1) \<Rightarrow>
          q = p \<and>
          (case DeleteObjects env bucket (map Key (Objects p)) w1 of
             (None, w2) \<Rightarrow> delivers env bucket w2 ps rw
           | (Some err, w2) \<Rightarrow> False)
      | (Inl err, w1) \<Rightarrow> False)"

text \<open>The answers to the list calls of a run, and the key sets of its delete calls, in
  order.\<close>

fun listCalls :: "event list \<Rightarrow> (error + ListObjectsResult) list" where
  "listCalls [] = []"
| "listCalls (CallListObjects bucket r # evs) = r # listCalls evs"
| "listCalls (ev # evs) = listCalls evs"

fun deleteCalls :: "event list \<Rightarrow> string list list" where
  "deleteCalls [] = []"
| "deleteCalls (CallDeleteObjects bucket keys r # evs) = keys # deleteCalls evs"
| "deleteCalls (ev # evs) = deleteCalls evs"

subsection \<open>A scripted environment for concrete runs\<close>

text \<open>An environment whose object store answers from a script: the world holds the answers
  that the coming \<^verbatim>\<open>ListObjects\<close> and \<^verbatim>\<open>DeleteObjects\<close> calls will get. The state read
  and the charge type query give the two answers the environment is built from; every
  other call succeeds.\<close>

record world =
  list_answers :: "(error + ListObjectsResult) list"
  delete_answers :: "error option list"

definition scripted_env :: "(error + strmap) \<Rightarrow> (error + string) \<Rightarrow> world env" where
  "scripted_env stateAnswer chargeAnswer =
     \<lparr>GetCIDR = (\<lambda>vpcID w. (Inr ''10.0.0.0/16'', w)),
      GetNatGatewayInfo = (\<lambda>vpcID w. (Inr (''ngw-1'', ''snat-1''), w)),
      GetEIPInternetChargeType = (\<lambda>vpcID w. (chargeAnswer, w)),
      NewShootTerraformer =
        (\<lambda>p w. (Inr \<lparr>purpose = p, variablesEnvironment = [], initializedWith = None\<rparr>, w)),
      NewBackupInfrastructureTerraformer =
        (\<lambda>w. (Inr \<lparr>purpose = ''backup'', variablesEnvironment = [], initializedWith = None\<rparr>, w)),
      GetStateOutputVariables = (\<lambda>tf names w. (stateAnswer, w)),
      Apply = (\<lambda>tf w. (None, w)),
      Destroy = (\<lambda>tf w. (None, w)),
      oss_New = (\<lambda>endpoint keyID keySecret w. (Inr (OssClient endpoint keyID keySecret), w)),
      Bucket = (\<lambda>client name w. (Inr (OssBucket client name), w)),
      ListObjects =
        (\<lambda>bucket w. case list_answers w of
                       [] \<Rightarrow> (Inl (Error ''no answer left''), w)
                     | a # as \<Rightarrow> (a, w\<lparr>list_answers := as\<rparr>)),
      DeleteObjects =
        (\<lambda>bucket keys w. case delete_answers w of
                            [] \<Rightarrow> (None, w)
                          | a # as \<Rightarrow> (a, w\<lparr>delete_answers := as\<rparr>)),
      Infof = (\<lambda>msg w. w)\<rparr>"

definition page :: "string list \<Rightarrow> bool \<Rightarrow> ListObjectsResult" where
  "page keys truncated = \<lparr>Objects = map (\<lambda>key. \<lparr>Key = key\<rparr>) keys, IsTruncated = truncated\<rparr>"

definition example_pkg :: pkg where
  "example_pkg =
     \<lparr>BucketName = ''bucketName'',
      StorageEndpoint = ''storageEndpoint'',
      AccessKeyID = ''accessKeyID'',
      AccessKeySecret = ''accessKeySecret'',
      TerraformerPurposeInfra = ''infra'',
      DefaultInternetChargeType = ''PayByTraffic'',
      DataKeySSHAuthorizedKeys = ''id_rsa.pub'',
      IsVariablesNotFoundError = (\<lambda>e. e = Error ''variables not found''),
      IsNotFound = (\<lambda>e. e = Error ''not found''),
      GenerateVariablesEnvironment =
        (\<lambda>secret kvs. map (\<lambda>(key, v). (''TF_VAR_'' @ key, index (Data secret) v)) kvs)\<rparr>"

definition example_botanist :: "string option \<Rightarrow> string option \<Rightarrow> AlicloudBotanist" where
  "example_botanist existingID cidr =
     \<lparr>Shoot_Region = ''cn-beijing'',
      Zones = [''cn-beijing-f''],
      Networks_Workers = [''10.250.0.0/19''],
      Networks_VPC_ID = existingID,
      Networks_VPC_CIDR = cidr,
      Shoot_SeedNamespace = ''shoot--dev--demo'',
      Shoot_Secret = \<lparr>Data = [(''accessKeyID'', ''id''), (''accessKeySecret'', ''secret'')]\<rparr>,
      Secrets = (\<lambda>name. if name = ''ssh-keypair''
                         then Some \<lparr>Data = [(''id_rsa.pub'', ''ssh-rsa AAAA'')]\<rparr> else None),
      Seed_Secret = \<lparr>Data = [(''accessKeyID'', ''id''), (''accessKeySecret'', ''secret'')]\<rparr>\<rparr>"

definition backup_state :: strmap where
  "backup_state = [(''bucketName'', ''backup-1''), (''storageEndpoint'', ''oss.example.com'')]"

definition backup_bucket :: OssBucket where
  "backup_bucket = OssBucket (OssClient ''oss.example.com'' ''id'' ''secret'') ''backup-1''"

definition failing_world :: world where
  "failing_world =
     \<lparr>list_answers =
        [Inr (page [''a'', ''b''] True), Inr (page [''c''] True), Inr (page [''d''] False)],
      delete_answers = [None, Some (Error ''delete failed'')]\<rparr>"

definition backup_terraformer :: Terraformer where
  "backup_terraformer = \<lparr>purpose = ''backup'', variablesEnvironment = [], initializedWith = None\<rparr>"

definition failing_run_calls :: "event list" where
  "failing_run_calls =
     [CallNewBackupInfrastructureTerraformer (Inr backup_terraformer),
      CallGetStateOutputVariables backup_terraformer [''bucketName'', ''storageEndpoint'']
        (Inr backup_state),
      CallOssNew ''oss.example.com'' ''id'' ''secret''
        (Inr (OssClient ''oss.example.com'' ''id'' ''secret'')),
      CallBucket (OssClient ''oss.example.com'' ''id'' ''secret'') ''backup-1'' (Inr backup_bucket),
      CallListObjects backup_bucket (Inr (page [''a'', ''b''] True)),
      CallDeleteObjects backup_bucket [''a'', ''b''] None,
      CallListObjects backup_bucket (Inr (page [''c''] True)),
      CallDeleteObjects backup_bucket [''c''] (Some (Error ''delete failed''))]"

definition three_pages :: "ListObjectsResult list" where
  "three_pages = [page [''a'', ''b''] True, page [''c''] True, page [''d''] False]"

definition three_pages_world :: world where
  "three_pages_world = \<lparr>list_answers = map Inr three_pages, delete_answers = []\<rparr>"

definition drained_world :: world where
  "drained_world = \<lparr>list_answers = [], delete_answers = []\<rparr>"

definition empty_page_world :: "error option \<Rightarrow> world" where
  "empty_page_world deleteAnswer =
     \<lparr>list_answers = [Inr (page [] False)], delete_answers = [deleteAnswer]\<rparr>"

definition infra_terraformer :: Terraformer where
  "infra_terraformer = \<lparr>purpose = ''infra'', variablesEnvironment = [], initializedWith = None\<rparr>"

definition infra_state :: strmap where
  "infra_state = [(''vpc_id'', ''vpc-1'')]"

definition adopted_config :: "string \<Rightarrow> InfraConfig" where
  "adopted_config chargeType =
     \<lparr>alicloud_region = ''cn-beijing'',
      create_vpc = False,
      vpc_cidr = ''10.0.0.0/16'',
      vpc_id = ''net-123'',
      vpc_natGatewayID = ''ngw-1'',
      vpc_snatTableID = ''snat-1'',
      vpc_internetChargeType = chargeType,
      clusterName = ''shoot--dev--demo'',
      sshPublicKey = ''ssh-rsa AAAA'',
      zones = [\<lparr>zone_name = ''cn-beijing-f'', zone_cidr_worker = ''10.250.0.0/19''\<rparr>]\<rparr>"

definition fresh_config :: InfraConfig where
  "fresh_config =
     \<lparr>alicloud_region = ''cn-beijing'',
      create_vpc = True,
      vpc_cidr = ''10.1.0.0/16'',
      vpc_id = ''${alicloud_vpc.vpc.id}'',
      vpc_natGatewayID = ''${alicloud_nat_gateway.nat_gateway.id}'',
      vpc_snatTableID = ''${alicloud_nat_gateway.nat_gateway.snat_table_ids}'',
      vpc_internetChargeType = ''PayByTraffic'',
      clusterName = ''shoot--dev--demo'',
      sshPublicKey = ''ssh-rsa AAAA'',
      zones = [\<lparr>zone_name = ''cn-beijing-f'', zone_cidr_worker = ''10.250.0.0/19''\<rparr>]\<rparr>"

definition applied_terraformer :: "InfraConfig \<Rightarrow> Terraformer" where
  "applied_terraformer vals =
     \<lparr>purpose = ''infra'',
      variablesEnvironment =
        [(''TF_VAR_ACCESS_KEY_ID'', ''id''), (''TF_VAR_ACCESS_KEY_SECRET'', ''secret'')],
      initializedWith = Some (''alicloud-infra'', vals)\<rparr>"

definition adopted_run_calls :: "event list" where
  "adopted_run_calls =
     [CallGetCIDR ''net-123'' (Inr ''10.0.0.0/16''),
      CallGetNatGatewayInfo ''net-123'' (Inr (''ngw-1'', ''snat-1'')),
      CallNewShootTerraformer ''infra'' (Inr infra_terraformer),
      CallNewShootTerraformer ''infra'' (Inr infra_terraformer),
      CallGetStateOutputVariables infra_terraformer [''vpc_id''] (Inr infra_state),
      CallGetEIPInternetChargeType ''vpc-1'' (Inr ''PayByTraffic''),
      CallApply (applied_terraformer (adopted_config ''PayByTraffic'')) None]"

definition fresh_run_calls :: "event list" where
  "fresh_run_calls =
     [CallNewShootTerraformer ''infra'' (Inr infra_terraformer),
      CallNewShootTerraformer ''infra'' (Inr infra_terraformer),
      CallGetStateOutputVariables infra_terraformer [''vpc_id''] (Inl (Error ''not found'')),
      CallApply (applied_terraformer fresh_config) None]"

definition state_without_vpc_run_calls :: "event list" where
  "state_without_vpc_run_calls =
     [CallNewShootTerraformer ''infra'' (Inr infra_terraformer),
      CallNewShootTerraformer ''infra'' (Inr infra_terraformer),
      CallGetStateOutputVariables infra_terraformer [''vpc_id'']
        (Inl (Error ''variables not found''))]"

section \<open>Properties\<close>

subsection \<open>The purge loop stops at the first failing call\<close>

lemma loop_only_store_calls:
  "cleanSnapshots_loop n env bk w = (r, w', evs) \<Longrightarrow> filter isDestroyCall evs = []"
proof (induction n arbitrary: w r w' evs)
  case 0
  then show ?case by simp
next
  case (Suc n)
  then show ?case
    by (auto split: prod.splits sum.splits option.splits if_splits simp: Let_def)
qed

lemma loop_failure_is_last:
  "cleanSnapshots_loop n env bk w = (r, w', evs) \<Longrightarrow> ev \<in> set evs \<Longrightarrow> purgeFailure ev = Some err
     \<Longrightarrow> r = Some (Some err) \<and> last evs = ev \<and> ev \<notin> set (butlast evs)"
proof (induction n arbitrary: w r w' evs)
  case 0
  then show ?case by simp
next
  case (Suc n)
  show ?case
  proof (cases "ListObjects env bk w")
    case (Pair a w1)
    show ?thesis
    proof (cases a)
      case (Inl e)
      with Pair Suc.prems show ?thesis by auto
    next
      case (Inr lsRes)
      show ?thesis
      proof (cases "DeleteObjects env bk (map Key (Objects lsRes)) w1")
        case del: (Pair d w2)
        show ?thesis
        proof (cases d)
          case (Some e)
          with Pair Inr del Suc.prems show ?thesis by auto
        next
          case None
          show ?thesis
          proof (cases "IsTruncated lsRes")
            case False
            with Pair Inr del None Suc.prems show ?thesis by auto
          next
            case True
            obtain r3 w3 evs3 where rec: "cleanSnapshots_loop n env bk w2 = (r3, w3, evs3)"
              by (cases "cleanSnapshots_loop n env bk w2") auto
            from Pair Inr del None True rec Suc.prems(1)
            have evs: "evs = CallListObjects bk (Inr lsRes)
                         # CallDeleteObjects bk (map Key (Objects lsRes)) None # evs3"
              and r: "r = r3" by auto
            from evs Suc.prems(2,3) have in3: "ev \<in> set evs3" by auto
            from Suc.IH[OF rec in3 Suc.prems(3)]
            have ih: "r3 = Some (Some err)" "last evs3 = ev" "ev \<notin> set (butlast evs3)" by auto
            from in3 have ne: "evs3 \<noteq> []" by auto
            from Suc.prems(3) have neq: "ev \<noteq> CallListObjects bk (Inr lsRes)"
              "ev \<noteq> CallDeleteObjects bk (map Key (Objects lsRes)) None" by auto
            from ih ne neq evs r show ?thesis by auto
          qed
        qed
      qed
    qed
  qed
qed


lemma cleanSnapshots_no_destroy:
  "cleanSnapshots n env bn se ak sk w = (r, w', evs) \<Longrightarrow> filter isDestroyCall evs = []"
  unfolding cleanSnapshots_def
  by (auto split: prod.splits sum.splits dest: loop_only_store_calls)

lemma cleanSnapshots_failure_is_last:
  assumes "cleanSnapshots n env bn se ak sk w = (r, w', evs)"
    and "ev \<in> set evs" and "purgeFailure ev = Some err"
  shows "r = Some (Some err) \<and> last evs = ev \<and> ev \<notin> set (butlast evs)"
proof (cases "oss_New env se ak sk w")
  case (Pair a w1)
  show ?thesis
  proof (cases a)
    case (Inl e)
    with Pair assms show ?thesis by (auto simp: cleanSnapshots_def)
  next
    case (Inr client)
    show ?thesis
    proof (cases "Bucket env client bn w1")
      case bk: (Pair c w2)
      show ?thesis
      proof (cases c)
        case (Inl e)
        with Pair Inr bk assms show ?thesis by (auto simp: cleanSnapshots_def)
      next
        case bucket: (Inr bucket)
        obtain r3 w3 evs3 where rec: "cleanSnapshots_loop n env bucket w2 = (r3, w3, evs3)"
          by (cases "cleanSnapshots_loop n env bucket w2") auto
        from Pair Inr bk bucket rec assms(1)
        have evs: "evs = CallOssNew se ak sk (Inr client) # CallBucket client bn (Inr bucket) # evs3"
          and r: "r = r3" by (auto simp: cleanSnapshots_def)
        from evs assms(2,3) have in3: "ev \<in> set evs3" by auto
        from loop_failure_is_last[OF rec in3 assms(3)]
        have ih: "r3 = Some (Some err)" "last evs3 = ev" "ev \<notin> set (butlast evs3)" by auto
        from in3 have ne: "evs3 \<noteq> []" by auto
        from assms(3) have neq: "ev \<noteq> CallOssNew se ak sk (Inr client)"
          "ev \<noteq> CallBucket client bn (Inr bucket)" by auto
        from ih ne neq evs r show ?thesis by auto
      qed
    qed
  qed
qed


lemma DestroyBackup_purged:
  assumes "NewBackupInfrastructureTerraformer env w = (Inr tf, w1)"
    and "GetStateOutputVariables env tf [BucketName k, StorageEndpoint k] w1 = (Inr sv, w2)"
    and "cleanSnapshots fuel env (index sv (BucketName k)) (index sv (StorageEndpoint k))
           (index (Data (Seed_Secret b)) (AccessKeyID k))
           (index (Data (Seed_Secret b)) (AccessKeySecret k)) w2 = (Some None, w3, evs3)"
  shows "DestroyBackupInfrastructure fuel k env b w =
           (Some (fst (Destroy env (SetVariablesEnvironment
                      (generateTerraformBackupVariablesEnvironment k b) tf) w3)),
            snd (Destroy env (SetVariablesEnvironment
                      (generateTerraformBackupVariablesEnvironment k b) tf) w3),
            CallNewBackupInfrastructureTerraformer (Inr tf)
            # CallGetStateOutputVariables tf [BucketName k, StorageEndpoint k] (Inr sv)
            # evs3 @ [CallDestroy (SetVariablesEnvironment
                      (generateTerraformBackupVariablesEnvironment k b) tf)
                    (fst (Destroy env (SetVariablesEnvironment
                      (generateTerraformBackupVariablesEnvironment k b) tf) w3))])"
  unfolding DestroyBackupInfrastructure_def using assms
  by (simp add: Let_def split: prod.split)

lemma DestroyBackup_not_purged:
  assumes "NewBackupInfrastructureTerraformer env w = (Inr tf, w1)"
    and "GetStateOutputVariables env tf [BucketName k, StorageEndpoint k] w1 = (Inr sv, w2)"
    and "cleanSnapshots fuel env (index sv (BucketName k)) (index sv (StorageEndpoint k))
           (index (Data (Seed_Secret b)) (AccessKeyID k))
           (index (Data (Seed_Secret b)) (AccessKeySecret k)) w2 = (r3, w3, evs3)"
    and "r3 \<noteq> Some None"
  shows "DestroyBackupInfrastructure fuel k env b w =
           (r3, w3,
            CallNewBackupInfrastructureTerraformer (Inr tf)
            # CallGetStateOutputVariables tf [BucketName k, StorageEndpoint k] (Inr sv)
            # evs3)"
  unfolding DestroyBackupInfrastructure_def using assms
  by (simp split: option.split)

lemma DestroyBackup_no_state:
  assumes "NewBackupInfrastructureTerraformer env w = (Inr tf, w1)"
    and "GetStateOutputVariables env tf [BucketName k, StorageEndpoint k] w1 = (Inl e, w2)"
  shows "DestroyBackupInfrastructure fuel k env b w =
           (if IsVariablesNotFoundError k e then
              (Some None, Infof env skipMessage w2,
               [CallNewBackupInfrastructureTerraformer (Inr tf),
                CallGetStateOutputVariables tf [BucketName k, StorageEndpoint k] (Inl e),
                CallInfof skipMessage])
            else
              (Some (Some e), w2,
               [CallNewBackupInfrastructureTerraformer (Inr tf),
                CallGetStateOutputVariables tf [BucketName k, StorageEndpoint k] (Inl e)]))"
  unfolding DestroyBackupInfrastructure_def using assms by simp

lemma DestroyBackup_no_terraformer:
  assumes "NewBackupInfrastructureTerraformer env w = (Inl e, w1)"
  shows "DestroyBackupInfrastructure fuel k env b w =
           (Some (Some e), w1, [CallNewBackupInfrastructureTerraformer (Inl e)])"
  unfolding DestroyBackupInfrastructure_def using assms by simp

text \<open>
  C1. In backup destroy, whenever a \<^verbatim>\<open>ListObjects\<close> or \<^verbatim>\<open>DeleteObjects\<close> call of the
  purge fails, that call is the last call of the run (so no further list call is issued and
  the failure happens once), \<^verbatim>\<open>DestroyBackupInfrastructure\<close> returns the error of that
  call, and the terraformer's \<^verbatim>\<open>Destroy\<close> is not called. This holds for every amount of
  fuel, that is, for every prefix of every run.
\<close>

theorem purge_failure_aborts_backup_destroy:
  assumes run: "DestroyBackupInfrastructure fuel k env b w = (r, w', evs)"
    and occurs: "ev \<in> set evs"
    and fails: "purgeFailure ev = Some err"
  shows "r = Some (Some err) \<and> last evs = ev \<and> ev \<notin> set (butlast evs)
           \<and> filter isDestroyCall evs = []"
proof (cases "NewBackupInfrastructureTerraformer env w")
  case (Pair a w1)
  show ?thesis
  proof (cases a)
    case (Inl e)
    from DestroyBackup_no_terraformer[of env w e w1 fuel k b] Pair Inl run
    have "evs = [CallNewBackupInfrastructureTerraformer (Inl e)]" by simp
    with occurs fails show ?thesis by simp
  next
    case (Inr tf)
    let ?names = "[BucketName k, StorageEndpoint k]"
    show ?thesis
    proof (cases "GetStateOutputVariables env tf ?names w1")
      case st: (Pair c w2)
      show ?thesis
      proof (cases c)
        case (Inl e)
        from DestroyBackup_no_state[of env w tf w1 k e w2 fuel b] Pair Inr st Inl run
        have "set evs \<subseteq> {CallNewBackupInfrastructureTerraformer (Inr tf),
                CallGetStateOutputVariables tf ?names (Inl e), CallInfof skipMessage}"
          by (auto split: if_splits)
        with occurs fails show ?thesis by auto
      next
        case vars: (Inr sv)
        let ?purge = "cleanSnapshots fuel env
                       (index sv (BucketName k))
                       (index sv (StorageEndpoint k))
                       (index (Data (Seed_Secret b)) (AccessKeyID k))
                       (index (Data (Seed_Secret b)) (AccessKeySecret k)) w2"
        let ?pre = "[CallNewBackupInfrastructureTerraformer (Inr tf),
                     CallGetStateOutputVariables tf ?names (Inr sv)]"
        obtain r3 w3 evs3 where rec: "?purge = (r3, w3, evs3)"
          by (cases ?purge) auto
        note nd = cleanSnapshots_no_destroy[OF rec]
        from Pair Inr have new: "NewBackupInfrastructureTerraformer env w = (Inr tf, w1)" by simp
        from st vars have gs: "GetStateOutputVariables env tf ?names w1 = (Inr sv, w2)" by simp
        show ?thesis
        proof (cases "r3 = Some None")
          case True
          have "ev \<notin> set evs3"
            using cleanSnapshots_failure_is_last[OF rec _ fails] True by auto
          moreover from DestroyBackup_purged[OF new gs rec[unfolded True]] run
          have "\<exists>d x. evs = ?pre @ evs3 @ [CallDestroy d x]"
            by auto
          ultimately show ?thesis using occurs fails by auto
        next
          case False
          from DestroyBackup_not_purged[OF new gs rec False] run
          have evs: "evs = ?pre @ evs3" and r: "r = r3"
            by auto
          from evs occurs fails have in3: "ev \<in> set evs3" by auto
          from cleanSnapshots_failure_is_last[OF rec in3 fails]
          have ih: "r3 = Some (Some err)" "last evs3 = ev" "ev \<notin> set (butlast evs3)" by auto
          from in3 have ne: "evs3 \<noteq> []" by auto
          from fails have neq: "ev \<notin> set ?pre" by auto
          from ih ne neq evs r nd show ?thesis by (auto simp: butlast_append)
        qed
      qed
    qed
  qed
qed

theorem purge_failure_aborts_backup_destroy_witness:
  "DestroyBackupInfrastructure 5 example_pkg
       (scripted_env (Inr backup_state) (Inr ''PayByTraffic'')) (example_botanist None None)
       failing_world
     = (Some (Some (Error ''delete failed'')),
        \<lparr>list_answers = [Inr (page [''d''] False)], delete_answers = []\<rparr>, failing_run_calls)
   \<and> CallDeleteObjects backup_bucket [''c''] (Some (Error ''delete failed''))
       \<in> set failing_run_calls
   \<and> purgeFailure (CallDeleteObjects backup_bucket [''c''] (Some (Error ''delete failed'')))
       = Some (Error ''delete failed'')
   \<and> last failing_run_calls = CallDeleteObjects backup_bucket [''c''] (Some (Error ''delete failed''))
   \<and> CallDeleteObjects backup_bucket [''c''] (Some (Error ''delete failed''))
       \<notin> set (butlast failing_run_calls)
   \<and> filter isDestroyCall failing_run_calls = []"
proof -
  have run: "DestroyBackupInfrastructure 5 example_pkg
       (scripted_env (Inr backup_state) (Inr ''PayByTraffic'')) (example_botanist None None)
       failing_world
     = (Some (Some (Error ''delete failed'')),
        \<lparr>list_answers = [Inr (page [''d''] False)], delete_answers = []\<rparr>, failing_run_calls)"
    by (simp add: DestroyBackupInfrastructure_def cleanSnapshots_def scripted_env_def
          example_pkg_def example_botanist_def backup_state_def backup_bucket_def page_def
          index_def failing_world_def failing_run_calls_def backup_terraformer_def
          eval_nat_numeral)
  have occurs: "CallDeleteObjects backup_bucket [''c''] (Some (Error ''delete failed''))
                  \<in> set failing_run_calls"
    by (simp add: failing_run_calls_def)
  have fails: "purgeFailure (CallDeleteObjects backup_bucket [''c''] (Some (Error ''delete failed'')))
                 = Some (Error ''delete failed'')"
    by simp
  from purge_failure_aborts_backup_destroy [OF run occurs fails] run occurs fails
  show ?thesis by simp
qed

subsection \<open>Backup destroy without prior state\<close>



subsection \<open>The purge goes page by page\<close>

lemma loop_runs_rounds:
  "delivers env bucket w ps (r, w') \<Longrightarrow> list_all IsTruncated (butlast ps)
     \<Longrightarrow> \<not> IsTruncated (last ps) \<Longrightarrow> length ps \<le> fuel
     \<Longrightarrow> cleanSnapshots_loop fuel env bucket w = (Some r, w', purge_rounds bucket ps r)"
proof (induction ps arbitrary: w fuel)
  case Nil
  then show ?case by simp
next
  case (Cons p ps)
  from Cons.prems(4) obtain n where fuel: "fuel = Suc n" and n: "length ps \<le> n"
    by (cases fuel) auto
  show ?case
  proof (cases ps)
    case Nil
    with Cons.prems fuel show ?thesis
      by (cases r) (auto split: prod.splits sum.splits)
  next
    case (Cons q qs)
    from Cons.prems(1) Cons obtain w1 w2 where
      ls: "ListObjects env bucket w = (Inr p, w1)" and
      del: "DeleteObjects env bucket (map Key (Objects p)) w1 = (None, w2)" and
      rest: "delivers env bucket w2 ps (r, w')"
      by (auto split: prod.splits sum.splits option.splits)
    from Cons.prems(2,3) Cons have tr: "IsTruncated p" "list_all IsTruncated (butlast ps)"
      "\<not> IsTruncated (last ps)" by auto
    from Cons.IH[OF rest tr(2,3) n]
    have "cleanSnapshots_loop n env bucket w2 = (Some r, w', purge_rounds bucket ps r)" .
    with ls del tr(1) fuel Cons show ?thesis by simp
  qed
qed

lemma listCalls_rounds: "listCalls (purge_rounds bucket ps r) = map Inr ps"
  by (induction bucket ps r rule: purge_rounds.induct) simp_all

lemma deleteCalls_rounds:
  "deleteCalls (purge_rounds bucket ps r) = map (\<lambda>p. map Key (Objects p)) ps"
  by (induction bucket ps r rule: purge_rounds.induct) simp_all

lemma cleanSnapshots_opened:
  "oss_New env se ak sk w0 = (Inr client, w1) \<Longrightarrow> Bucket env client bn w1 = (Inr bucket, w)
   \<Longrightarrow> cleanSnapshots fuel env bn se ak sk w0 =
         (case cleanSnapshots_loop fuel env bucket w of
            (r, w3, evs) \<Rightarrow>
              (r, w3, CallOssNew se ak sk (Inr client) # CallBucket client bn (Inr bucket) # evs))"
  by (simp add: cleanSnapshots_def)

text \<open>
  C8. The purge repeats: list a page, then delete exactly the keys of that page, and goes
  on to the next round only when the page was reported as truncated. When \<^verbatim>\<open>oss.New\<close>
  and \<^verbatim>\<open>client.Bucket\<close> succeed and the bucket delivers the pages \<open>ps\<close>, truncated
  except for the last one, \<^verbatim>\<open>cleanSnapshots\<close> makes, after these two calls, exactly one
  list call and one delete call per page, the delete call with the keys of that page, and
  returns the answer of the last delete call. The list call takes no argument: the
  truncation flag of the page before decides only whether the call is made.
\<close>

theorem purge_lists_and_deletes_page_by_page:
  assumes "oss_New env storageEndpoint accessKeyID accessKeySecret w0 = (Inr client, w1)"
    and "Bucket env client bucketName w1 = (Inr bucket, w)"
    and "delivers env bucket w ps (r, w')"
    and "list_all IsTruncated (butlast ps)" and "\<not> IsTruncated (last ps)"
    and "length ps \<le> fuel"
  shows "cleanSnapshots fuel env bucketName storageEndpoint accessKeyID accessKeySecret w0 =
           (Some r, w',
            CallOssNew storageEndpoint accessKeyID accessKeySecret (Inr client)
            # CallBucket client bucketName (Inr bucket) # purge_rounds bucket ps r)
         \<and> listCalls (snd (snd (cleanSnapshots fuel env bucketName storageEndpoint
                                   accessKeyID accessKeySecret w0))) = map Inr ps
         \<and> deleteCalls (snd (snd (cleanSnapshots fuel env bucketName storageEndpoint
                                     accessKeyID accessKeySecret w0)))
             = map (\<lambda>p. map Key (Objects p)) ps"
  using cleanSnapshots_opened[OF assms(1,2), of fuel] loop_runs_rounds[OF assms(3-6)]
    listCalls_rounds[of bucket ps r] deleteCalls_rounds[of bucket ps r]
  by simp

theorem purge_lists_and_deletes_page_by_page_witness:
  "oss_New (scripted_env (Inr backup_state) (Inr ''PayByTraffic''))
       ''oss.example.com'' ''id'' ''secret'' three_pages_world
     = (Inr (OssClient ''oss.example.com'' ''id'' ''secret''), three_pages_world)
   \<and> Bucket (scripted_env (Inr backup_state) (Inr ''PayByTraffic''))
       (OssClient ''oss.example.com'' ''id'' ''secret'') ''backup-1'' three_pages_world
     = (Inr backup_bucket, three_pages_world)
   \<and> delivers (scripted_env (Inr backup_state) (Inr ''PayByTraffic'')) backup_bucket
       three_pages_world three_pages (None, drained_world)
   \<and> list_all IsTruncated (butlast three_pages)
   \<and> \<not> IsTruncated (last three_pages)
   \<and> length three_pages \<le> 3
   \<and> map IsTruncated three_pages = [True, True, False]
   \<and> cleanSnapshots 3 (scripted_env (Inr backup_state) (Inr ''PayByTraffic''))
         ''backup-1'' ''oss.example.com'' ''id'' ''secret'' three_pages_world
       = (Some None, drained_world,
          [CallOssNew ''oss.example.com'' ''id'' ''secret''
             (Inr (OssClient ''oss.example.com'' ''id'' ''secret'')),
           CallBucket (OssClient ''oss.example.com'' ''id'' ''secret'') ''backup-1''
             (Inr backup_bucket),
           CallListObjects backup_bucket (Inr (page [''a'', ''b''] True)),
           CallDeleteObjects backup_bucket [''a'', ''b''] None,
           CallListObjects backup_bucket (Inr (page [''c''] True)),
           CallDeleteObjects backup_bucket [''c''] None,
           CallListObjects backup_bucket (Inr (page [''d''] False)),
           CallDeleteObjects backup_bucket [''d''] None])
   \<and> length (listCalls (snd (snd (cleanSnapshots 3
         (scripted_env (Inr backup_state) (Inr ''PayByTraffic''))
         ''backup-1'' ''oss.example.com'' ''id'' ''secret'' three_pages_world)))) = 3
   \<and> deleteCalls (snd (snd (cleanSnapshots 3
         (scripted_env (Inr backup_state) (Inr ''PayByTraffic''))
         ''backup-1'' ''oss.example.com'' ''id'' ''secret'' three_pages_world)))
       = [[''a'', ''b''], [''c''], [''d'']]"
proof -
  let ?env = "scripted_env (Inr backup_state) (Inr ''PayByTraffic'')"
  have new: "oss_New ?env ''oss.example.com'' ''id'' ''secret'' three_pages_world
               = (Inr (OssClient ''oss.example.com'' ''id'' ''secret''), three_pages_world)"
    by (simp add: scripted_env_def)
  have bk: "Bucket ?env (OssClient ''oss.example.com'' ''id'' ''secret'') ''backup-1''
              three_pages_world = (Inr backup_bucket, three_pages_world)"
    by (simp add: scripted_env_def backup_bucket_def)
  have d: "delivers ?env backup_bucket three_pages_world three_pages (None, drained_world)"
    by (simp add: scripted_env_def three_pages_world_def three_pages_def drained_world_def
          page_def)
  have t: "list_all IsTruncated (butlast three_pages)"
    by (simp add: three_pages_def page_def)
  have l: "\<not> IsTruncated (last three_pages)"
    by (simp add: three_pages_def page_def)
  have f: "length three_pages \<le> 3"
    by (simp add: three_pages_def)
  from purge_lists_and_deletes_page_by_page [OF new bk d t l f] new bk d t l f
  show ?thesis by (simp add: three_pages_def page_def)
qed

subsection \<open>An empty first page\<close>

text \<open>
  C9, as the code has it. When the first page has no keys and is not truncated, the purge
  makes one list call and one delete call with the empty list of keys, and returns what
  that delete call answers after this one iteration: nil when the call succeeds, its error
  otherwise. No key is deleted. This holds of the loop, and of \<^verbatim>\<open>cleanSnapshots\<close> as a
  whole when \<^verbatim>\<open>oss.New\<close> and \<^verbatim>\<open>client.Bucket\<close> have succeeded.
\<close>

theorem empty_first_page:
  assumes "ListObjects env bucket w = (Inr p, w1)" and "Objects p = []" and "\<not> IsTruncated p"
    and "DeleteObjects env bucket [] w1 = (r, w2)"
  shows "cleanSnapshots_loop (Suc n) env bucket w =
           (Some r, w2, [CallListObjects bucket (Inr p), CallDeleteObjects bucket [] r])
         \<and> (\<forall>bucketName storageEndpoint accessKeyID accessKeySecret w0 client wc.
               oss_New env storageEndpoint accessKeyID accessKeySecret w0 = (Inr client, wc)
               \<and> Bucket env client bucketName wc = (Inr bucket, w)
               \<longrightarrow> cleanSnapshots (Suc n) env bucketName storageEndpoint accessKeyID
                     accessKeySecret w0 =
                   (Some r, w2,
                    [CallOssNew storageEndpoint accessKeyID accessKeySecret (Inr client),
                     CallBucket client bucketName (Inr bucket),
                     CallListObjects bucket (Inr p), CallDeleteObjects bucket [] r]))"
proof -
  from assms have loop: "cleanSnapshots_loop (Suc n) env bucket w =
           (Some r, w2, [CallListObjects bucket (Inr p), CallDeleteObjects bucket [] r])"
    by (cases r) simp_all
  have "cleanSnapshots (Suc n) env bn se ak sk w0 =
          (Some r, w2,
           [CallOssNew se ak sk (Inr client), CallBucket client bn (Inr bucket),
            CallListObjects bucket (Inr p), CallDeleteObjects bucket [] r])"
    if "oss_New env se ak sk w0 = (Inr client, wc)" "Bucket env client bn wc = (Inr bucket, w)"
    for bn se ak sk w0 client wc
    using cleanSnapshots_opened[OF that, of "Suc n"] loop by simp
  with loop show ?thesis by blast
qed

theorem empty_first_page_witness:
  "ListObjects (scripted_env (Inr backup_state) (Inr ''PayByTraffic'')) backup_bucket
       (empty_page_world None) = (Inr (page [] False), \<lparr>list_answers = [], delete_answers = [None]\<rparr>)
   \<and> Objects (page [] False) = []
   \<and> \<not> IsTruncated (page [] False)
   \<and> DeleteObjects (scripted_env (Inr backup_state) (Inr ''PayByTraffic'')) backup_bucket []
       \<lparr>list_answers = [], delete_answers = [None]\<rparr> = (None, drained_world)
   \<and> cleanSnapshots_loop (Suc 0) (scripted_env (Inr backup_state) (Inr ''PayByTraffic''))
         backup_bucket (empty_page_world None)
       = (Some None, drained_world,
          [CallListObjects backup_bucket (Inr (page [] False)),
           CallDeleteObjects backup_bucket [] None])
   \<and> oss_New (scripted_env (Inr backup_state) (Inr ''PayByTraffic''))
       ''oss.example.com'' ''id'' ''secret'' (empty_page_world None)
     = (Inr (OssClient ''oss.example.com'' ''id'' ''secret''), empty_page_world None)
   \<and> Bucket (scripted_env (Inr backup_state) (Inr ''PayByTraffic''))
       (OssClient ''oss.example.com'' ''id'' ''secret'') ''backup-1'' (empty_page_world None)
     = (Inr backup_bucket, empty_page_world None)
   \<and> cleanSnapshots (Suc 0) (scripted_env (Inr backup_state) (Inr ''PayByTraffic''))
         ''backup-1'' ''oss.example.com'' ''id'' ''secret'' (empty_page_world None)
       = (Some None, drained_world,
          [CallOssNew ''oss.example.com'' ''id'' ''secret''
             (Inr (OssClient ''oss.example.com'' ''id'' ''secret'')),
           CallBucket (OssClient ''oss.example.com'' ''id'' ''secret'') ''backup-1''
             (Inr backup_bucket),
           CallListObjects backup_bucket (Inr (page [] False)),
           CallDeleteObjects backup_bucket [] None])"
proof -
  let ?env = "scripted_env (Inr backup_state) (Inr ''PayByTraffic'')"
  have ls: "ListObjects ?env backup_bucket (empty_page_world None)
              = (Inr (page [] False), \<lparr>list_answers = [], delete_answers = [None]\<rparr>)"
    by (simp add: scripted_env_def empty_page_world_def)
  have e: "Objects (page [] False) = []" by (simp add: page_def)
  have t: "\<not> IsTruncated (page [] False)" by (simp add: page_def)
  have del: "DeleteObjects ?env backup_bucket [] \<lparr>list_answers = [], delete_answers = [None]\<rparr>
               = (None, drained_world)"
    by (simp add: scripted_env_def drained_world_def)
  have new: "oss_New ?env ''oss.example.com'' ''id'' ''secret'' (empty_page_world None)
               = (Inr (OssClient ''oss.example.com'' ''id'' ''secret''), empty_page_world None)"
    by (simp add: scripted_env_def)
  have bk: "Bucket ?env (OssClient ''oss.example.com'' ''id'' ''secret'') ''backup-1''
              (empty_page_world None) = (Inr backup_bucket, empty_page_world None)"
    by (simp add: scripted_env_def backup_bucket_def)
  note inst = empty_first_page [OF ls e t del, of 0]
  from inst have loop: "cleanSnapshots_loop (Suc 0) ?env backup_bucket (empty_page_world None)
       = (Some None, drained_world,
          [CallListObjects backup_bucket (Inr (page [] False)),
           CallDeleteObjects backup_bucket [] None])" by blast
  from inst new bk
  have purge: "cleanSnapshots (Suc 0) ?env ''backup-1'' ''oss.example.com'' ''id'' ''secret''
                 (empty_page_world None)
       = (Some None, drained_world,
          [CallOssNew ''oss.example.com'' ''id'' ''secret''
             (Inr (OssClient ''oss.example.com'' ''id'' ''secret'')),
           CallBucket (OssClient ''oss.example.com'' ''id'' ''secret'') ''backup-1''
             (Inr backup_bucket),
           CallListObjects backup_bucket (Inr (page [] False)),
           CallDeleteObjects backup_bucket [] None])" by blast
  from ls e t del loop new bk purge show ?thesis by simp
qed

text \<open>The claim as the specification states it fails: with an empty first page that is not
  truncated, the delete call is still made, and when it fails the purge returns its
  error.\<close>

theorem empty_first_page_delete_fails:
  "Objects (page [] False) = []
   \<and> \<not> IsTruncated (page [] False)
   \<and> cleanSnapshots_loop (Suc 0) (scripted_env (Inr backup_state) (Inr ''PayByTraffic''))
         backup_bucket (empty_page_world (Some (Error ''delete failed'')))
       = (Some (Some (Error ''delete failed'')), drained_world,
          [CallListObjects backup_bucket (Inr (page [] False)),
           CallDeleteObjects backup_bucket [] (Some (Error ''delete failed''))])
   \<and> cleanSnapshots (Suc 0) (scripted_env (Inr backup_state) (Inr ''PayByTraffic''))
         ''backup-1'' ''oss.example.com'' ''id'' ''secret''
         (empty_page_world (Some (Error ''delete failed'')))
       = (Some (Some (Error ''delete failed'')), drained_world,
          [CallOssNew ''oss.example.com'' ''id'' ''secret''
             (Inr (OssClient ''oss.example.com'' ''id'' ''secret'')),
           CallBucket (OssClient ''oss.example.com'' ''id'' ''secret'') ''backup-1''
             (Inr backup_bucket),
           CallListObjects backup_bucket (Inr (page [] False)),
           CallDeleteObjects backup_bucket [] (Some (Error ''delete failed''))])"
  by (simp add: cleanSnapshots_def scripted_env_def empty_page_world_def drained_world_def
        page_def backup_bucket_def)

subsection \<open>The paths of charge type resolution, configuration building and deploy\<close>

lemma fetch_no_terraformer:
  "NewShootTerraformer env (TerraformerPurposeInfra k) w = (Inl e, w1)
   \<Longrightarrow> fetchEIPInternetChargeType k env w =
         (Inl e, w1, [CallNewShootTerraformer (TerraformerPurposeInfra k) (Inl e)])"
  by (simp add: fetchEIPInternetChargeType_def Let_def)

lemma fetch_no_state:
  "NewShootTerraformer env (TerraformerPurposeInfra k) w = (Inr tf, w1)
   \<Longrightarrow> GetStateOutputVariables env tf [''vpc_id''] w1 = (Inl e, w2)
   \<Longrightarrow> fetchEIPInternetChargeType k env w =
         (if IsNotFound k e then Inr (DefaultInternetChargeType k) else Inl e, w2,
          [CallNewShootTerraformer (TerraformerPurposeInfra k) (Inr tf),
           CallGetStateOutputVariables tf [''vpc_id''] (Inl e)])"
  by (simp add: fetchEIPInternetChargeType_def Let_def)

lemma fetch_state:
  "NewShootTerraformer env (TerraformerPurposeInfra k) w = (Inr tf, w1)
   \<Longrightarrow> GetStateOutputVariables env tf [''vpc_id''] w1 = (Inr sv, w2)
   \<Longrightarrow> GetEIPInternetChargeType env (index sv ''vpc_id'') w2 = (r, w3)
   \<Longrightarrow> fetchEIPInternetChargeType k env w =
         (r, w3,
          [CallNewShootTerraformer (TerraformerPurposeInfra k) (Inr tf),
           CallGetStateOutputVariables tf [''vpc_id''] (Inr sv),
           CallGetEIPInternetChargeType (index sv ''vpc_id'') r])"
  by (simp add: fetchEIPInternetChargeType_def Let_def)

lemma fetch_calls:
  "fetchEIPInternetChargeType k env w = (r, w', evs)
   \<Longrightarrow> filter isApplyCall evs = [] \<and> filter isDiscoveryCall evs = []"
  by (auto simp: fetchEIPInternetChargeType_def Let_def split: prod.splits sum.splits)

lemma generate_after_fetch:
  "fetchEIPInternetChargeType k env w = (Inr ct, w1, evs)
   \<Longrightarrow> generateTerraformInfraConfig k env b createVPC vpcID natGatewayID snatTableID vpcCIDR w =
         (case zones_loop 0 (Zones b) (Networks_Workers b) [] of
            Panics p \<Rightarrow> Panics p
          | Return zs \<Rightarrow>
              (case Secrets b ''ssh-keypair'' of
                 None \<Rightarrow> Panics (NilPointerDereference ''sshSecret'')
               | Some s \<Rightarrow>
                   Return (Inr
                     \<lparr>alicloud_region = Shoot_Region b,
                      create_vpc = createVPC,
                      vpc_cidr = vpcCIDR,
                      vpc_id = vpcID,
                      vpc_natGatewayID = natGatewayID,
                      vpc_snatTableID = snatTableID,
                      vpc_internetChargeType = ct,
                      clusterName = Shoot_SeedNamespace b,
                      sshPublicKey = index (Data s) (DataKeySSHAuthorizedKeys k),
                      zones = zs\<rparr>)), w1, evs)"
  by (simp add: generateTerraformInfraConfig_def split: outcome.splits option.splits)

lemma generate_fetch_fails:
  "fetchEIPInternetChargeType k env w = (Inl e, w1, evs)
   \<Longrightarrow> generateTerraformInfraConfig k env b createVPC vpcID natGatewayID snatTableID vpcCIDR w =
         (Return (Inl e), w1, evs)"
  by (simp add: generateTerraformInfraConfig_def)

lemma generate_effects:
  "snd (generateTerraformInfraConfig k env b createVPC vpcID natGatewayID snatTableID vpcCIDR w)
     = snd (fetchEIPInternetChargeType k env w)"
proof (cases "fetchEIPInternetChargeType k env w")
  case (fields r w1 evs)
  then show ?thesis
    by (cases r) (simp_all add: generate_after_fetch generate_fetch_fails)
qed

lemma generate_values:
  assumes "generateTerraformInfraConfig k env b createVPC vpcID natGatewayID snatTableID vpcCIDR w
             = (Return (Inr vals), w', evs)"
  shows "create_vpc vals = createVPC \<and> vpc_cidr vals = vpcCIDR \<and> vpc_id vals = vpcID
         \<and> vpc_natGatewayID vals = natGatewayID \<and> vpc_snatTableID vals = snatTableID
         \<and> fst (fetchEIPInternetChargeType k env w) = Inr (vpc_internetChargeType vals)"
proof (cases "fetchEIPInternetChargeType k env w")
  case (fields r w1 evs1)
  show ?thesis
  proof (cases r)
    case (Inl e)
    with fields assms show ?thesis by (simp add: generate_fetch_fails)
  next
    case (Inr ct)
    with fields assms show ?thesis
      by (auto simp: generate_after_fetch split: outcome.splits option.splits)
  qed
qed


lemma variables_fresh:
  "Networks_VPC_ID b = None \<Longrightarrow> Networks_VPC_CIDR b = Some cidr
   \<Longrightarrow> DeployInfrastructure_variables env b w =
         (Return (Inr (True, ''${alicloud_vpc.vpc.id}'', ''${alicloud_nat_gateway.nat_gateway.id}'',
                       ''${alicloud_nat_gateway.nat_gateway.snat_table_ids}'', cidr)), w, [])"
  by (simp add: DeployInfrastructure_variables_def)

lemma variables_both_absent:
  "Networks_VPC_ID b = None \<Longrightarrow> Networks_VPC_CIDR b = None
   \<Longrightarrow> DeployInfrastructure_variables env b w = (Panics (NilPointerDereference ''VPC.CIDR''), w, [])"
  by (simp add: DeployInfrastructure_variables_def)

lemma variables_adopted:
  "Networks_VPC_ID b = Some existingID \<Longrightarrow> GetCIDR env existingID w = (Inr cidr, w1)
   \<Longrightarrow> GetNatGatewayInfo env existingID w1 = (Inr (ng, st), w2)
   \<Longrightarrow> DeployInfrastructure_variables env b w =
         (Return (Inr (False, existingID, ng, st, cidr)), w2,
          [CallGetCIDR existingID (Inr cidr), CallGetNatGatewayInfo existingID (Inr (ng, st))])"
  by (simp add: DeployInfrastructure_variables_def)

lemma variables_create_flag:
  "DeployInfrastructure_variables env b w = (Return (Inr (c, i, n, s, cidr)), w', evs)
   \<Longrightarrow> c = (Networks_VPC_ID b = None)"
  by (auto simp: DeployInfrastructure_variables_def Let_def
        split: option.splits prod.splits sum.splits)

lemma variables_no_panic:
  "Networks_VPC_ID b \<noteq> None \<or> Networks_VPC_CIDR b \<noteq> None
   \<Longrightarrow> fst (DeployInfrastructure_variables env b w) \<noteq> Panics p"
  by (auto simp: DeployInfrastructure_variables_def Let_def
        split: option.splits prod.splits sum.splits)

lemma variables_calls:
  "DeployInfrastructure_variables env b w = (r, w', evs) \<Longrightarrow> filter isApplyCall evs = []"
  by (auto simp: DeployInfrastructure_variables_def Let_def
        split: option.splits prod.splits sum.splits)

lemma generate_calls:
  assumes "generateTerraformInfraConfig k env b c i n s cidr w = (g, w', evs)"
  shows "filter isApplyCall evs = [] \<and> filter isDiscoveryCall evs = []"
proof -
  from assms generate_effects[of k env b c i n s cidr w]
  have "snd (fetchEIPInternetChargeType k env w) = (w', evs)" by simp
  then have "fetchEIPInternetChargeType k env w = (fst (fetchEIPInternetChargeType k env w), w', evs)"
    by (metis prod.collapse)
  then show ?thesis by (rule fetch_calls)
qed

lemma generate_panics:
  "fst (generateTerraformInfraConfig k env b c i n s cidr w) = Panics (NilPointerDereference x)
   \<Longrightarrow> x = ''sshSecret''"
proof (cases "fetchEIPInternetChargeType k env w")
  case (fields r w1 evs1)
  assume p: "fst (generateTerraformInfraConfig k env b c i n s cidr w) = Panics (NilPointerDereference x)"
  have zl: "zones_loop idx zs ws acc \<noteq> Panics (NilPointerDereference x)" for idx zs ws acc
    by (induction idx zs ws acc rule: zones_loop.induct) auto
  show ?thesis
  proof (cases r)
    case (Inl e)
    with fields p show ?thesis by (simp add: generate_fetch_fails)
  next
    case (Inr ct)
    with fields p zl[of 0 "Zones b" "Networks_Workers b" "[]"] show ?thesis
      by (auto simp: generate_after_fetch split: outcome.splits option.splits)
  qed
qed

lemma Deploy_variables_panic:
  "DeployInfrastructure_variables env b w = (Panics p, w0, evs0)
   \<Longrightarrow> DeployInfrastructure k env b w = (Panics p, w0, evs0)"
  by (simp add: DeployInfrastructure_def)

lemma Deploy_variables_error:
  "DeployInfrastructure_variables env b w = (Return (Inl e), w0, evs0)
   \<Longrightarrow> DeployInfrastructure k env b w = (Return (Some e), w0, evs0)"
  by (simp add: DeployInfrastructure_def)

lemma Deploy_no_terraformer:
  "DeployInfrastructure_variables env b w = (Return (Inr (c, i, n, s, cidr)), w0, evs0)
   \<Longrightarrow> NewShootTerraformer env (TerraformerPurposeInfra k) w0 = (Inl e, w1)
   \<Longrightarrow> DeployInfrastructure k env b w =
         (Return (Some e), w1, evs0 @ [CallNewShootTerraformer (TerraformerPurposeInfra k) (Inl e)])"
  by (simp add: DeployInfrastructure_def)

lemma Deploy_no_config:
  "DeployInfrastructure_variables env b w = (Return (Inr (c, i, n, s, cidr)), w0, evs0)
   \<Longrightarrow> NewShootTerraformer env (TerraformerPurposeInfra k) w0 = (Inr tf, w1)
   \<Longrightarrow> generateTerraformInfraConfig k env b c i n s cidr w1 = (g, w2, evs2)
   \<Longrightarrow> (\<And>vals. g \<noteq> Return (Inr vals))
   \<Longrightarrow> DeployInfrastructure k env b w =
         (case g of Panics p \<Rightarrow> Panics p | Return x \<Rightarrow> Return (Some (projl x)), w2,
          evs0 @ CallNewShootTerraformer (TerraformerPurposeInfra k) (Inr tf) # evs2)"
  by (auto simp: DeployInfrastructure_def split: outcome.splits sum.splits)

lemma Deploy_config:
  "DeployInfrastructure_variables env b w = (Return (Inr (c, i, n, s, cidr)), w0, evs0)
   \<Longrightarrow> NewShootTerraformer env (TerraformerPurposeInfra k) w0 = (Inr tf, w1)
   \<Longrightarrow> generateTerraformInfraConfig k env b c i n s cidr w1 = (Return (Inr vals), w2, evs2)
   \<Longrightarrow> tf' = InitializeWith (ChartInitializer ''alicloud-infra'' vals)
                (SetVariablesEnvironment (generateTerraformInfraVariablesEnvironment k b) tf)
   \<Longrightarrow> DeployInfrastructure k env b w =
         (Return (fst (Apply env tf' w2)), snd (Apply env tf' w2),
          evs0 @ CallNewShootTerraformer (TerraformerPurposeInfra k) (Inr tf)
            # evs2 @ [CallApply tf' (fst (Apply env tf' w2))])"
  by (simp add: DeployInfrastructure_def Let_def split: prod.split)

lemma in_set_filter_empty: "filter P xs = [] \<Longrightarrow> x \<in> set xs \<Longrightarrow> \<not> P x"
  by (induction xs) (auto split: if_splits)

lemma Deploy_applied:
  assumes run: "DeployInfrastructure k env b w = (out, w', evs)"
    and applied: "CallApply tf' r \<in> set evs"
  obtains c i n s cidr w0 evs0 tf w1 vals w2 evs2 where
    "DeployInfrastructure_variables env b w = (Return (Inr (c, i, n, s, cidr)), w0, evs0)"
    "NewShootTerraformer env (TerraformerPurposeInfra k) w0 = (Inr tf, w1)"
    "generateTerraformInfraConfig k env b c i n s cidr w1 = (Return (Inr vals), w2, evs2)"
    "tf' = InitializeWith (ChartInitializer ''alicloud-infra'' vals)
             (SetVariablesEnvironment (generateTerraformInfraVariablesEnvironment k b) tf)"
    "evs = evs0 @ CallNewShootTerraformer (TerraformerPurposeInfra k) (Inr tf)
             # evs2 @ [CallApply tf' r]"
    "out = Return r"
proof (cases "DeployInfrastructure_variables env b w")
  case (fields v w0 evs0)
  note na0 = in_set_filter_empty[OF variables_calls[OF fields], of "CallApply tf' r"]
  show ?thesis
  proof (cases v)
    case (Panics p)
    with fields run applied na0 Deploy_variables_panic[of env b w p w0 evs0 k]
    show ?thesis by auto
  next
    case (Return x)
    show ?thesis
    proof (cases x)
      case (Inl e)
      with Return fields run applied na0 Deploy_variables_error[of env b w e w0 evs0 k]
      show ?thesis by auto
    next
      case (Inr t)
      obtain c i n s cidr where t: "t = (c, i, n, s, cidr)" by (cases t) auto
      from fields Return Inr t
      have v: "DeployInfrastructure_variables env b w = (Return (Inr (c, i, n, s, cidr)), w0, evs0)"
        by simp
      show ?thesis
      proof (cases "NewShootTerraformer env (TerraformerPurposeInfra k) w0")
        case new: (Pair a w1)
        show ?thesis
        proof (cases a)
          case (Inl e)
          with new Deploy_no_terraformer[OF v, of k e w1] run applied na0
          show ?thesis by auto
        next
          case tf: (Inr tf)
          from new tf have nw: "NewShootTerraformer env (TerraformerPurposeInfra k) w0 = (Inr tf, w1)"
            by simp
          obtain g w2 evs2 where
            gen: "generateTerraformInfraConfig k env b c i n s cidr w1 = (g, w2, evs2)"
            by (cases "generateTerraformInfraConfig k env b c i n s cidr w1") auto
          note na2 = in_set_filter_empty[OF conjunct1[OF generate_calls[OF gen]], of "CallApply tf' r"]
          show ?thesis
          proof (cases "\<exists>vals. g = Return (Inr vals)")
            case False
            then have "\<And>vals. g \<noteq> Return (Inr vals)" by auto
            from Deploy_no_config[OF v nw gen this] run applied na0 na2
            show ?thesis by auto
          next
            case True
            then obtain vals where g: "g = Return (Inr vals)" by auto
            let ?tf = "InitializeWith (ChartInitializer ''alicloud-infra'' vals)
                         (SetVariablesEnvironment (generateTerraformInfraVariablesEnvironment k b) tf)"
            from Deploy_config[OF v nw gen[unfolded g] refl] run
            have evs: "evs = evs0 @ CallNewShootTerraformer (TerraformerPurposeInfra k) (Inr tf)
                         # evs2 @ [CallApply ?tf (fst (Apply env ?tf w2))]"
              and out: "out = Return (fst (Apply env ?tf w2))" by auto
            from evs applied na0 na2 have "tf' = ?tf" "r = fst (Apply env ?tf w2)" by auto
            with that[OF v nw gen[unfolded g]] evs out show ?thesis by auto
          qed
        qed
      qed
    qed
  qed
qed

lemmas example_defs =
  scripted_env_def example_pkg_def example_botanist_def infra_terraformer_def infra_state_def
  index_def

lemmas run_defs =
  DeployInfrastructure_def DeployInfrastructure_variables_def generateTerraformInfraConfig_def
  fetchEIPInternetChargeType_def generateTerraformInfraVariablesEnvironment_def
  SetVariablesEnvironment_def InitializeWith_def ChartInitializer_def Let_def
  applied_terraformer_def adopted_config_def fresh_config_def drained_world_def

subsection \<open>The internet charge type\<close>

text \<open>
  C3, as the code has it. The charge type is resolved in two steps: the output variable
  named \<^verbatim>\<open>vpc_id\<close> is read from the terraformer state, and the value stored under it is
  passed to the provider client's \<^verbatim>\<open>GetEIPInternetChargeType\<close>. When the state read
  succeeds, the resolved charge type (or the error) is the answer of that provider query,
  and the run consists of these three calls.
\<close>

theorem charge_type_from_state_and_provider:
  assumes "NewShootTerraformer env (TerraformerPurposeInfra k) w = (Inr tf, w1)"
    and "GetStateOutputVariables env tf [''vpc_id''] w1 = (Inr sv, w2)"
    and "GetEIPInternetChargeType env (index sv ''vpc_id'') w2 = (r, w3)"
  shows "fst (fetchEIPInternetChargeType k env w) = r
         \<and> snd (snd (fetchEIPInternetChargeType k env w)) =
             [CallNewShootTerraformer (TerraformerPurposeInfra k) (Inr tf),
              CallGetStateOutputVariables tf [''vpc_id''] (Inr sv),
              CallGetEIPInternetChargeType (index sv ''vpc_id'') r]"
  using fetch_state[OF assms] by simp

theorem charge_type_from_state_and_provider_witness:
  "NewShootTerraformer (scripted_env (Inr infra_state) (Inr ''PayByBandwidth''))
       (TerraformerPurposeInfra example_pkg) drained_world = (Inr infra_terraformer, drained_world)
   \<and> GetStateOutputVariables (scripted_env (Inr infra_state) (Inr ''PayByBandwidth''))
       infra_terraformer [''vpc_id''] drained_world = (Inr infra_state, drained_world)
   \<and> GetEIPInternetChargeType (scripted_env (Inr infra_state) (Inr ''PayByBandwidth''))
       (index infra_state ''vpc_id'') drained_world = (Inr ''PayByBandwidth'', drained_world)
   \<and> fst (fetchEIPInternetChargeType example_pkg
            (scripted_env (Inr infra_state) (Inr ''PayByBandwidth'')) drained_world)
       = Inr ''PayByBandwidth''
   \<and> snd (snd (fetchEIPInternetChargeType example_pkg
            (scripted_env (Inr infra_state) (Inr ''PayByBandwidth'')) drained_world))
       = [CallNewShootTerraformer ''infra'' (Inr infra_terraformer),
          CallGetStateOutputVariables infra_terraformer [''vpc_id''] (Inr infra_state),
          CallGetEIPInternetChargeType ''vpc-1'' (Inr ''PayByBandwidth'')]"
proof -
  let ?env = "scripted_env (Inr infra_state) (Inr ''PayByBandwidth'')"
  have new: "NewShootTerraformer ?env (TerraformerPurposeInfra example_pkg) drained_world
               = (Inr infra_terraformer, drained_world)"
    by (simp add: example_defs)
  have state: "GetStateOutputVariables ?env infra_terraformer [''vpc_id''] drained_world
                 = (Inr infra_state, drained_world)"
    by (simp add: example_defs)
  have charge: "GetEIPInternetChargeType ?env (index infra_state ''vpc_id'') drained_world
                  = (Inr ''PayByBandwidth'', drained_world)"
    by (simp add: example_defs)
  from charge_type_from_state_and_provider [OF new state charge] new state charge
  show ?thesis by (simp add: example_pkg_def infra_state_def index_def)
qed

text \<open>The claim as the specification states it fails: two environments that give the
  same answer to every state read, and differ only in the provider's answer, resolve
  different charge types.\<close>

theorem charge_type_depends_on_provider:
  "GetStateOutputVariables (scripted_env (Inr infra_state) (Inr ''PayByTraffic''))
     = GetStateOutputVariables (scripted_env (Inr infra_state) (Inr ''PayByBandwidth''))
   \<and> fst (fetchEIPInternetChargeType example_pkg
            (scripted_env (Inr infra_state) (Inr ''PayByTraffic'')) drained_world)
       = Inr ''PayByTraffic''
   \<and> fst (fetchEIPInternetChargeType example_pkg
            (scripted_env (Inr infra_state) (Inr ''PayByBandwidth'')) drained_world)
       = Inr ''PayByBandwidth''"
  by (simp add: fetchEIPInternetChargeType_def example_defs Let_def)

text \<open>
  C4, as the code has it. When the read of the state output variable \<^verbatim>\<open>vpc_id\<close> fails
  with an error that \<^verbatim>\<open>apierrors.IsNotFound\<close> recognises,
  \<^verbatim>\<open>fetchEIPInternetChargeType\<close> returns \<^verbatim>\<open>DefaultInternetChargeType\<close> and no error,
  without a provider query; so \<^verbatim>\<open>generateTerraformInfraConfig\<close> returns no error from it,
  and every configuration it builds carries the default charge type.
\<close>

theorem charge_type_default_without_state:
  assumes "NewShootTerraformer env (TerraformerPurposeInfra k) w = (Inr tf, w1)"
    and "GetStateOutputVariables env tf [''vpc_id''] w1 = (Inl err, w2)"
    and "IsNotFound k err"
  shows "fetchEIPInternetChargeType k env w =
           (Inr (DefaultInternetChargeType k), w2,
            [CallNewShootTerraformer (TerraformerPurposeInfra k) (Inr tf),
             CallGetStateOutputVariables tf [''vpc_id''] (Inl err)])
         \<and> (case fst (generateTerraformInfraConfig k env b
                        createVPC vpcID natGatewayID snatTableID vpcCIDR w) of
              Return (Inl e) \<Rightarrow> False
            | Return (Inr vals) \<Rightarrow> vpc_internetChargeType vals = DefaultInternetChargeType k
            | Panics p \<Rightarrow> True)"
proof -
  from fetch_no_state[OF assms(1,2)] assms(3)
  have f: "fetchEIPInternetChargeType k env w =
           (Inr (DefaultInternetChargeType k), w2,
            [CallNewShootTerraformer (TerraformerPurposeInfra k) (Inr tf),
             CallGetStateOutputVariables tf [''vpc_id''] (Inl err)])" by simp
  show ?thesis
    unfolding generate_after_fetch[OF f] using f
    by (simp split: outcome.splits option.splits)
qed

theorem charge_type_default_without_state_witness:
  "NewShootTerraformer (scripted_env (Inl (Error ''not found'')) (Inr ''PayByBandwidth''))
       (TerraformerPurposeInfra example_pkg) drained_world = (Inr infra_terraformer, drained_world)
   \<and> GetStateOutputVariables (scripted_env (Inl (Error ''not found'')) (Inr ''PayByBandwidth''))
       infra_terraformer [''vpc_id''] drained_world = (Inl (Error ''not found''), drained_world)
   \<and> IsNotFound example_pkg (Error ''not found'')
   \<and> fetchEIPInternetChargeType example_pkg
         (scripted_env (Inl (Error ''not found'')) (Inr ''PayByBandwidth'')) drained_world
       = (Inr ''PayByTraffic'', drained_world,
          [CallNewShootTerraformer ''infra'' (Inr infra_terraformer),
           CallGetStateOutputVariables infra_terraformer [''vpc_id''] (Inl (Error ''not found''))])
   \<and> fst (generateTerraformInfraConfig example_pkg
            (scripted_env (Inl (Error ''not found'')) (Inr ''PayByBandwidth''))
            (example_botanist (Some ''net-123'') None)
            False ''net-123'' ''ngw-1'' ''snat-1'' ''10.0.0.0/16'' drained_world)
       = Return (Inr (adopted_config ''PayByTraffic''))"
proof -
  let ?env = "scripted_env (Inl (Error ''not found'')) (Inr ''PayByBandwidth'')"
  have new: "NewShootTerraformer ?env (TerraformerPurposeInfra example_pkg) drained_world
               = (Inr infra_terraformer, drained_world)"
    by (simp add: example_defs)
  have state: "GetStateOutputVariables ?env infra_terraformer [''vpc_id''] drained_world
                 = (Inl (Error ''not found''), drained_world)"
    by (simp add: example_defs)
  have notfound: "IsNotFound example_pkg (Error ''not found'')"
    by (simp add: example_pkg_def)
  have built: "fst (generateTerraformInfraConfig example_pkg ?env
                      (example_botanist (Some ''net-123'') None)
                      False ''net-123'' ''ngw-1'' ''snat-1'' ''10.0.0.0/16'' drained_world)
                 = Return (Inr (adopted_config ''PayByTraffic''))"
    by (simp add: generateTerraformInfraConfig_def fetchEIPInternetChargeType_def Let_def
          example_defs adopted_config_def)
  from charge_type_default_without_state [OF new state notfound,
         of "example_botanist (Some ''net-123'') None" False "''net-123''" "''ngw-1''"
            "''snat-1''" "''10.0.0.0/16''"]
    new state notfound built
  show ?thesis by (simp add: example_pkg_def)
qed

text \<open>The claim as the specification states it fails for the other not-found report of
  the state read, the one that backup destroy tests for: an error that
  \<^verbatim>\<open>terraformer.IsVariablesNotFoundError\<close> recognises and \<^verbatim>\<open>apierrors.IsNotFound\<close> does
  not is returned by the charge type resolution, and the deploy returns it without
  reaching \<^verbatim>\<open>Apply\<close>.\<close>

theorem charge_type_variables_not_found_fails:
  "IsVariablesNotFoundError example_pkg (Error ''variables not found'')
   \<and> \<not> IsNotFound example_pkg (Error ''variables not found'')
   \<and> GetStateOutputVariables
       (scripted_env (Inl (Error ''variables not found'')) (Inr ''PayByTraffic''))
       infra_terraformer [''vpc_id''] drained_world
     = (Inl (Error ''variables not found''), drained_world)
   \<and> fst (fetchEIPInternetChargeType example_pkg
            (scripted_env (Inl (Error ''variables not found'')) (Inr ''PayByTraffic''))
            drained_world)
       = Inl (Error ''variables not found'')
   \<and> DeployInfrastructure example_pkg
         (scripted_env (Inl (Error ''variables not found'')) (Inr ''PayByTraffic''))
         (example_botanist None (Some ''10.1.0.0/16'')) drained_world
       = (Return (Some (Error ''variables not found'')), drained_world,
          state_without_vpc_run_calls)
   \<and> filter isApplyCall state_without_vpc_run_calls = []"
  by (simp add: run_defs example_defs state_without_vpc_run_calls_def)

subsection \<open>The configuration builder\<close>

text \<open>
  C5, as the code has it. \<^verbatim>\<open>generateTerraformInfraConfig\<close> resolves the charge type
  itself, so it reads the terraformer state and may query the provider. Given the outcome
  of that resolution its result is a function of its inputs: two calls with the same
  package constants, botanist and arguments, in any two environments and worlds in which
  the charge type resolution has the same outcome, return the same result. The calls it
  makes and the world it leaves are those of the charge type resolution, and no others.
\<close>

theorem config_determined_by_inputs_and_charge_type:
  assumes "fst (fetchEIPInternetChargeType k env1 w1) = fst (fetchEIPInternetChargeType k env2 w2)"
  shows "fst (generateTerraformInfraConfig k env1 b createVPC vpcID natGatewayID snatTableID vpcCIDR w1)
           = fst (generateTerraformInfraConfig k env2 b createVPC vpcID natGatewayID snatTableID vpcCIDR w2)
         \<and> snd (generateTerraformInfraConfig k env1 b createVPC vpcID natGatewayID snatTableID vpcCIDR w1)
           = snd (fetchEIPInternetChargeType k env1 w1)"
proof -
  obtain r u1 evs1 where f1: "fetchEIPInternetChargeType k env1 w1 = (r, u1, evs1)"
    by (cases "fetchEIPInternetChargeType k env1 w1") auto
  with assms obtain u2 evs2 where f2: "fetchEIPInternetChargeType k env2 w2 = (r, u2, evs2)"
    by (cases "fetchEIPInternetChargeType k env2 w2") auto
  have "fst (generateTerraformInfraConfig k env1 b createVPC vpcID natGatewayID snatTableID vpcCIDR w1)
        = fst (generateTerraformInfraConfig k env2 b createVPC vpcID natGatewayID snatTableID vpcCIDR w2)"
  proof (cases r)
    case (Inl e)
    with f1 f2 show ?thesis by (simp add: generate_fetch_fails)
  next
    case (Inr ct)
    with f1 f2 show ?thesis by (simp add: generate_after_fetch)
  qed
  then show ?thesis by (simp add: generate_effects)
qed

theorem config_determined_by_inputs_and_charge_type_witness:
  "fst (fetchEIPInternetChargeType example_pkg
          (scripted_env (Inl (Error ''not found'')) (Inr ''PayByBandwidth'')) drained_world)
     = fst (fetchEIPInternetChargeType example_pkg
          (scripted_env (Inr infra_state) (Inr ''PayByTraffic'')) three_pages_world)
   \<and> fst (generateTerraformInfraConfig example_pkg
            (scripted_env (Inl (Error ''not found'')) (Inr ''PayByBandwidth''))
            (example_botanist (Some ''net-123'') None)
            False ''net-123'' ''ngw-1'' ''snat-1'' ''10.0.0.0/16'' drained_world)
       = fst (generateTerraformInfraConfig example_pkg
            (scripted_env (Inr infra_state) (Inr ''PayByTraffic''))
            (example_botanist (Some ''net-123'') None)
            False ''net-123'' ''ngw-1'' ''snat-1'' ''10.0.0.0/16'' three_pages_world)
   \<and> snd (generateTerraformInfraConfig example_pkg
            (scripted_env (Inl (Error ''not found'')) (Inr ''PayByBandwidth''))
            (example_botanist (Some ''net-123'') None)
            False ''net-123'' ''ngw-1'' ''snat-1'' ''10.0.0.0/16'' drained_world)
       = (drained_world,
          [CallNewShootTerraformer ''infra'' (Inr infra_terraformer),
           CallGetStateOutputVariables infra_terraformer [''vpc_id''] (Inl (Error ''not found''))])"
proof -
  have same: "fst (fetchEIPInternetChargeType example_pkg
          (scripted_env (Inl (Error ''not found'')) (Inr ''PayByBandwidth'')) drained_world)
     = fst (fetchEIPInternetChargeType example_pkg
          (scripted_env (Inr infra_state) (Inr ''PayByTraffic'')) three_pages_world)"
    by (simp add: fetchEIPInternetChargeType_def Let_def example_defs)
  have calls: "snd (fetchEIPInternetChargeType example_pkg
          (scripted_env (Inl (Error ''not found'')) (Inr ''PayByBandwidth'')) drained_world)
       = (drained_world,
          [CallNewShootTerraformer ''infra'' (Inr infra_terraformer),
           CallGetStateOutputVariables infra_terraformer [''vpc_id''] (Inl (Error ''not found''))])"
    by (simp add: fetchEIPInternetChargeType_def Let_def example_defs)
  from config_determined_by_inputs_and_charge_type [OF same,
         of "example_botanist (Some ''net-123'') None" False "''net-123''" "''ngw-1''"
            "''snat-1''" "''10.0.0.0/16''"]
    same calls
  show ?thesis by simp
qed

text \<open>The claim as the specification states it fails: with the same botanist, SSH key
  and network values, the builder returns configurations that differ when the provider
  answers differently, and it makes three collaborator calls on the way.\<close>

theorem config_depends_on_state_and_provider:
  "fst (generateTerraformInfraConfig example_pkg
          (scripted_env (Inr infra_state) (Inr ''PayByTraffic''))
          (example_botanist (Some ''net-123'') None)
          False ''net-123'' ''ngw-1'' ''snat-1'' ''10.0.0.0/16'' drained_world)
     = Return (Inr (adopted_config ''PayByTraffic''))
   \<and> fst (generateTerraformInfraConfig example_pkg
          (scripted_env (Inr infra_state) (Inr ''PayByBandwidth''))
          (example_botanist (Some ''net-123'') None)
          False ''net-123'' ''ngw-1'' ''snat-1'' ''10.0.0.0/16'' drained_world)
     = Return (Inr (adopted_config ''PayByBandwidth''))
   \<and> adopted_config ''PayByTraffic'' \<noteq> adopted_config ''PayByBandwidth''
   \<and> snd (snd (generateTerraformInfraConfig example_pkg
          (scripted_env (Inr infra_state) (Inr ''PayByTraffic''))
          (example_botanist (Some ''net-123'') None)
          False ''net-123'' ''ngw-1'' ''snat-1'' ''10.0.0.0/16'' drained_world))
     = [CallNewShootTerraformer ''infra'' (Inr infra_terraformer),
        CallGetStateOutputVariables infra_terraformer [''vpc_id''] (Inr infra_state),
        CallGetEIPInternetChargeType ''vpc-1'' (Inr ''PayByTraffic'')]"
  by (simp add: generateTerraformInfraConfig_def fetchEIPInternetChargeType_def Let_def
        example_defs adopted_config_def)

subsection \<open>The network block of the applied configuration\<close>

text \<open>
  C6. Whenever a deploy reaches \<^verbatim>\<open>Apply\<close>, the terraformer it applies is initialized
  with the chart \<^verbatim>\<open>alicloud-infra\<close> and values whose \<^verbatim>\<open>create.vpc\<close> is true exactly when
  no existing VPC id was given. When an existing id was given, and \<^verbatim>\<open>GetCIDR\<close> and
  \<^verbatim>\<open>GetNatGatewayInfo\<close> answered a CIDR, a NAT gateway id and a SNAT table id for it, then
  \<^verbatim>\<open>create.vpc\<close> is false and \<^verbatim>\<open>vpc.id\<close>, \<^verbatim>\<open>vpc.cidr\<close>, \<^verbatim>\<open>vpc.natGatewayID\<close> and
  \<^verbatim>\<open>vpc.snatTableID\<close> are the given id and the answered values. (The creation flag is the
  entry \<^verbatim>\<open>create.vpc\<close>; the \<^verbatim>\<open>vpc\<close> block holds \<^verbatim>\<open>internetChargeType\<close> as a fifth
  entry.)
\<close>

theorem applied_config_network_block:
  assumes run: "DeployInfrastructure k env b w = (out, w', evs)"
    and applied: "CallApply tf r \<in> set evs"
  shows "\<exists>vals. initializedWith tf = Some (''alicloud-infra'', vals)
           \<and> create_vpc vals = (Networks_VPC_ID b = None)
           \<and> (\<forall>existingID cidr ng st w1 w2.
                 Networks_VPC_ID b = Some existingID
                 \<and> GetCIDR env existingID w = (Inr cidr, w1)
                 \<and> GetNatGatewayInfo env existingID w1 = (Inr (ng, st), w2)
                 \<longrightarrow> \<not> create_vpc vals \<and> vpc_id vals = existingID \<and> vpc_cidr vals = cidr
                     \<and> vpc_natGatewayID vals = ng \<and> vpc_snatTableID vals = st)"
proof -
  from run applied obtain c i n s cidr w0 evs0 tf0 w1 vals w2 evs2 where
    v: "DeployInfrastructure_variables env b w = (Return (Inr (c, i, n, s, cidr)), w0, evs0)" and
    gen: "generateTerraformInfraConfig k env b c i n s cidr w1 = (Return (Inr vals), w2, evs2)" and
    tf: "tf = InitializeWith (ChartInitializer ''alicloud-infra'' vals)
             (SetVariablesEnvironment (generateTerraformInfraVariablesEnvironment k b) tf0)"
    by (rule Deploy_applied)
  from tf have init: "initializedWith tf = Some (''alicloud-infra'', vals)"
    by (simp add: InitializeWith_def ChartInitializer_def)
  note gv = generate_values[OF gen]
  from variables_create_flag[OF v] gv have flag: "create_vpc vals = (Networks_VPC_ID b = None)"
    by simp
  have "\<not> create_vpc vals \<and> vpc_id vals = existingID \<and> vpc_cidr vals = cidr'
          \<and> vpc_natGatewayID vals = ng \<and> vpc_snatTableID vals = st"
    if "Networks_VPC_ID b = Some existingID" "GetCIDR env existingID w = (Inr cidr', u1)"
       "GetNatGatewayInfo env existingID u1 = (Inr (ng, st), u2)"
    for existingID cidr' ng st u1 u2
    using variables_adopted[OF that] v gv by simp
  then have "\<forall>existingID cidr ng st w1 w2.
               Networks_VPC_ID b = Some existingID
               \<and> GetCIDR env existingID w = (Inr cidr, w1)
               \<and> GetNatGatewayInfo env existingID w1 = (Inr (ng, st), w2)
               \<longrightarrow> \<not> create_vpc vals \<and> vpc_id vals = existingID \<and> vpc_cidr vals = cidr
                   \<and> vpc_natGatewayID vals = ng \<and> vpc_snatTableID vals = st"
    by (intro allI impI) (elim conjE)
  with init flag show ?thesis by (intro exI[of _ vals] conjI)
qed

theorem applied_config_network_block_witness:
  "DeployInfrastructure example_pkg (scripted_env (Inr infra_state) (Inr ''PayByTraffic''))
       (example_botanist (Some ''net-123'') None) drained_world
     = (Return None, drained_world, adopted_run_calls)
   \<and> CallApply (applied_terraformer (adopted_config ''PayByTraffic'')) None \<in> set adopted_run_calls
   \<and> Networks_VPC_ID (example_botanist (Some ''net-123'') None) = Some ''net-123''
   \<and> GetCIDR (scripted_env (Inr infra_state) (Inr ''PayByTraffic'')) ''net-123'' drained_world
       = (Inr ''10.0.0.0/16'', drained_world)
   \<and> GetNatGatewayInfo (scripted_env (Inr infra_state) (Inr ''PayByTraffic'')) ''net-123''
         drained_world
       = (Inr (''ngw-1'', ''snat-1''), drained_world)
   \<and> initializedWith (applied_terraformer (adopted_config ''PayByTraffic''))
       = Some (''alicloud-infra'', adopted_config ''PayByTraffic'')
   \<and> \<not> create_vpc (adopted_config ''PayByTraffic'')
   \<and> vpc_id (adopted_config ''PayByTraffic'') = ''net-123''
   \<and> vpc_cidr (adopted_config ''PayByTraffic'') = ''10.0.0.0/16''
   \<and> vpc_natGatewayID (adopted_config ''PayByTraffic'') = ''ngw-1''
   \<and> vpc_snatTableID (adopted_config ''PayByTraffic'') = ''snat-1''"
proof -
  let ?env = "scripted_env (Inr infra_state) (Inr ''PayByTraffic'')"
  let ?b = "example_botanist (Some ''net-123'') None"
  let ?cfg = "adopted_config ''PayByTraffic''"
  have run: "DeployInfrastructure example_pkg ?env ?b drained_world
               = (Return None, drained_world, adopted_run_calls)"
    by (simp add: run_defs example_defs adopted_run_calls_def)
  have applied: "CallApply (applied_terraformer ?cfg) None \<in> set adopted_run_calls"
    by (simp add: adopted_run_calls_def)
  have existing: "Networks_VPC_ID ?b = Some ''net-123''"
    by (simp add: example_botanist_def)
  have cidr: "GetCIDR ?env ''net-123'' drained_world = (Inr ''10.0.0.0/16'', drained_world)"
    by (simp add: scripted_env_def)
  have nat: "GetNatGatewayInfo ?env ''net-123'' drained_world
               = (Inr (''ngw-1'', ''snat-1''), drained_world)"
    by (simp add: scripted_env_def)
  have init: "initializedWith (applied_terraformer ?cfg) = Some (''alicloud-infra'', ?cfg)"
    by (simp add: applied_terraformer_def)
  from applied_config_network_block [OF run applied] obtain vals where
    vals: "initializedWith (applied_terraformer ?cfg) = Some (''alicloud-infra'', vals)" and
    block: "\<forall>existingID cidr ng st w1 w2.
              Networks_VPC_ID ?b = Some existingID
              \<and> GetCIDR ?env existingID drained_world = (Inr cidr, w1)
              \<and> GetNatGatewayInfo ?env existingID w1 = (Inr (ng, st), w2)
              \<longrightarrow> \<not> create_vpc vals \<and> vpc_id vals = existingID \<and> vpc_cidr vals = cidr
                  \<and> vpc_natGatewayID vals = ng \<and> vpc_snatTableID vals = st"
    by blast
  from vals init have "vals = ?cfg" by simp
  with block existing cidr nat
  have "\<not> create_vpc ?cfg \<and> vpc_id ?cfg = ''net-123'' \<and> vpc_cidr ?cfg = ''10.0.0.0/16''
          \<and> vpc_natGatewayID ?cfg = ''ngw-1'' \<and> vpc_snatTableID ?cfg = ''snat-1''"
    by blast
  with run applied existing cidr nat init show ?thesis by simp
qed

text \<open>
  C7. Whenever a deploy with no existing VPC id and the VPC CIDR \<open>cidr\<close> reaches
  \<^verbatim>\<open>Apply\<close>, the applied values have \<^verbatim>\<open>create.vpc\<close> true, \<^verbatim>\<open>vpc.cidr\<close> equal to \<open>cidr\<close>,
  and the three Terraform placeholders as \<^verbatim>\<open>vpc.id\<close>, \<^verbatim>\<open>vpc.natGatewayID\<close> and
  \<^verbatim>\<open>vpc.snatTableID\<close>; the run makes no \<^verbatim>\<open>GetCIDR\<close> and no \<^verbatim>\<open>GetNatGatewayInfo\<close> call.
\<close>

theorem fresh_config_network_block:
  assumes fresh: "Networks_VPC_ID b = None" and cidr: "Networks_VPC_CIDR b = Some cidr"
    and run: "DeployInfrastructure k env b w = (out, w', evs)"
    and applied: "CallApply tf r \<in> set evs"
  shows "\<exists>vals. initializedWith tf = Some (''alicloud-infra'', vals)
           \<and> create_vpc vals \<and> vpc_cidr vals = cidr
           \<and> vpc_id vals = ''${alicloud_vpc.vpc.id}''
           \<and> vpc_natGatewayID vals = ''${alicloud_nat_gateway.nat_gateway.id}''
           \<and> vpc_snatTableID vals = ''${alicloud_nat_gateway.nat_gateway.snat_table_ids}''
           \<and> filter isDiscoveryCall evs = []"
proof -
  from run applied obtain c i n s cidr' w0 evs0 tf0 w1 vals w2 evs2 where
    v: "DeployInfrastructure_variables env b w = (Return (Inr (c, i, n, s, cidr')), w0, evs0)" and
    gen: "generateTerraformInfraConfig k env b c i n s cidr' w1 = (Return (Inr vals), w2, evs2)" and
    tf: "tf = InitializeWith (ChartInitializer ''alicloud-infra'' vals)
             (SetVariablesEnvironment (generateTerraformInfraVariablesEnvironment k b) tf0)" and
    evs: "evs = evs0 @ CallNewShootTerraformer (TerraformerPurposeInfra k) (Inr tf0)
             # evs2 @ [CallApply tf r]"
    by (rule Deploy_applied)
  from tf have init: "initializedWith tf = Some (''alicloud-infra'', vals)"
    by (simp add: InitializeWith_def ChartInitializer_def)
  from variables_fresh[OF fresh cidr, of env w] v
  have args: "c = True" "i = ''${alicloud_vpc.vpc.id}''"
    "n = ''${alicloud_nat_gateway.nat_gateway.id}''"
    "s = ''${alicloud_nat_gateway.nat_gateway.snat_table_ids}''" "cidr' = cidr" "evs0 = []"
    by simp_all
  from generate_calls[OF gen] evs args have "filter isDiscoveryCall evs = []" by simp
  with init generate_values[OF gen] args show ?thesis by simp
qed

theorem fresh_config_network_block_witness:
  "Networks_VPC_ID (example_botanist None (Some ''10.1.0.0/16'')) = None
   \<and> Networks_VPC_CIDR (example_botanist None (Some ''10.1.0.0/16'')) = Some ''10.1.0.0/16''
   \<and> DeployInfrastructure example_pkg
         (scripted_env (Inl (Error ''not found'')) (Inr ''PayByBandwidth''))
         (example_botanist None (Some ''10.1.0.0/16'')) drained_world
       = (Return None, drained_world, fresh_run_calls)
   \<and> CallApply (applied_terraformer fresh_config) None \<in> set fresh_run_calls
   \<and> initializedWith (applied_terraformer fresh_config) = Some (''alicloud-infra'', fresh_config)
   \<and> create_vpc fresh_config
   \<and> vpc_cidr fresh_config = ''10.1.0.0/16''
   \<and> vpc_id fresh_config = ''${alicloud_vpc.vpc.id}''
   \<and> vpc_natGatewayID fresh_config = ''${alicloud_nat_gateway.nat_gateway.id}''
   \<and> vpc_snatTableID fresh_config = ''${alicloud_nat_gateway.nat_gateway.snat_table_ids}''
   \<and> filter isDiscoveryCall fresh_run_calls = []"
proof -
  let ?env = "scripted_env (Inl (Error ''not found'')) (Inr ''PayByBandwidth'')"
  let ?b = "example_botanist None (Some ''10.1.0.0/16'')"
  have fresh: "Networks_VPC_ID ?b = None" by (simp add: example_botanist_def)
  have cidr: "Networks_VPC_CIDR ?b = Some ''10.1.0.0/16''" by (simp add: example_botanist_def)
  have run: "DeployInfrastructure example_pkg ?env ?b drained_world
               = (Return None, drained_world, fresh_run_calls)"
    by (simp add: run_defs example_defs fresh_run_calls_def)
  have applied: "CallApply (applied_terraformer fresh_config) None \<in> set fresh_run_calls"
    by (simp add: fresh_run_calls_def)
  have init: "initializedWith (applied_terraformer fresh_config)
                = Some (''alicloud-infra'', fresh_config)"
    by (simp add: applied_terraformer_def)
  from fresh_config_network_block [OF fresh cidr run applied] obtain vals where
    vals: "initializedWith (applied_terraformer fresh_config) = Some (''alicloud-infra'', vals)" and
    block: "create_vpc vals" "vpc_cidr vals = ''10.1.0.0/16''"
      "vpc_id vals = ''${alicloud_vpc.vpc.id}''"
      "vpc_natGatewayID vals = ''${alicloud_nat_gateway.nat_gateway.id}''"
      "vpc_snatTableID vals = ''${alicloud_nat_gateway.nat_gateway.snat_table_ids}''"
      "filter isDiscoveryCall fresh_run_calls = []"
    by blast
  from vals init have "vals = fresh_config" by simp
  with block fresh cidr run applied init show ?thesis by simp
qed

subsection \<open>The optional network fields\<close>

text \<open>
  C10. With neither an existing VPC id nor a VPC CIDR, \<^verbatim>\<open>DeployInfrastructure\<close> panics on
  the nil \<^verbatim>\<open>VPC.CIDR\<close> pointer before it makes any call. With at least one of the two
  present, the first part of the function does not panic, and the deploy panics neither on
  \<^verbatim>\<open>VPC.CIDR\<close> nor on \<^verbatim>\<open>VPC.ID\<close>.
\<close>

theorem network_pointer_dereference:
  "(Networks_VPC_ID b = None \<and> Networks_VPC_CIDR b = None
      \<longrightarrow> DeployInfrastructure k env b w = (Panics (NilPointerDereference ''VPC.CIDR''), w, []))
   \<and> (Networks_VPC_ID b \<noteq> None \<or> Networks_VPC_CIDR b \<noteq> None
      \<longrightarrow> (\<forall>p. fst (DeployInfrastructure_variables env b w) \<noteq> Panics p)
          \<and> fst (DeployInfrastructure k env b w) \<noteq> Panics (NilPointerDereference ''VPC.CIDR'')
          \<and> fst (DeployInfrastructure k env b w) \<noteq> Panics (NilPointerDereference ''VPC.ID''))"
proof (intro conjI impI allI)
  assume "Networks_VPC_ID b = None \<and> Networks_VPC_CIDR b = None"
  then show "DeployInfrastructure k env b w = (Panics (NilPointerDereference ''VPC.CIDR''), w, [])"
    by (simp add: variables_both_absent Deploy_variables_panic)
next
  fix p
  assume "Networks_VPC_ID b \<noteq> None \<or> Networks_VPC_CIDR b \<noteq> None"
  then show "fst (DeployInfrastructure_variables env b w) \<noteq> Panics p"
    by (rule variables_no_panic)
next
  assume pre: "Networks_VPC_ID b \<noteq> None \<or> Networks_VPC_CIDR b \<noteq> None"
  have only: "x = ''sshSecret''"
    if p: "fst (DeployInfrastructure k env b w) = Panics (NilPointerDereference x)" for x
  proof (cases "DeployInfrastructure_variables env b w")
    case (fields v w0 evs0)
    show ?thesis
    proof (cases v)
      case (Panics q)
      with fields variables_no_panic[OF pre, of env w q] show ?thesis by simp
    next
      case (Return y)
      show ?thesis
      proof (cases y)
        case (Inl e)
        with Return fields p Deploy_variables_error[of env b w e w0 evs0 k] show ?thesis by simp
      next
        case (Inr t)
        obtain c i n s cidr where t: "t = (c, i, n, s, cidr)" by (cases t) auto
        from fields Return Inr t
        have v: "DeployInfrastructure_variables env b w = (Return (Inr (c, i, n, s, cidr)), w0, evs0)"
          by simp
        show ?thesis
        proof (cases "NewShootTerraformer env (TerraformerPurposeInfra k) w0")
          case new: (Pair a w1)
          show ?thesis
          proof (cases a)
            case (Inl e)
            with new Deploy_no_terraformer[OF v, of k e w1] p show ?thesis by simp
          next
            case tf: (Inr tf)
            from new tf have nw: "NewShootTerraformer env (TerraformerPurposeInfra k) w0 = (Inr tf, w1)"
              by simp
            obtain g w2 evs2 where
              gen: "generateTerraformInfraConfig k env b c i n s cidr w1 = (g, w2, evs2)"
              by (cases "generateTerraformInfraConfig k env b c i n s cidr w1") auto
            show ?thesis
            proof (cases "\<exists>vals. g = Return (Inr vals)")
              case False
              then have "\<And>vals. g \<noteq> Return (Inr vals)" by auto
              from Deploy_no_config[OF v nw gen this] p
              have "g = Panics (NilPointerDereference x)"
                by (cases g) auto
              with gen generate_panics[of k env b c i n s cidr w1 x] show ?thesis by simp
            next
              case True
              then obtain vals where g: "g = Return (Inr vals)" by auto
              from Deploy_config[OF v nw gen[unfolded g] refl] p show ?thesis by simp
            qed
          qed
        qed
      qed
    qed
  qed
  from only[of "''VPC.CIDR''"]
  show "fst (DeployInfrastructure k env b w) \<noteq> Panics (NilPointerDereference ''VPC.CIDR'')"
    by auto
  from only[of "''VPC.ID''"]
  show "fst (DeployInfrastructure k env b w) \<noteq> Panics (NilPointerDereference ''VPC.ID'')"
    by auto
qed

theorem network_pointer_dereference_witness:
  "Networks_VPC_ID (example_botanist None None) = None
   \<and> Networks_VPC_CIDR (example_botanist None None) = None
   \<and> DeployInfrastructure example_pkg (scripted_env (Inr infra_state) (Inr ''PayByTraffic''))
         (example_botanist None None) drained_world
       = (Panics (NilPointerDereference ''VPC.CIDR''), drained_world, [])
   \<and> Networks_VPC_CIDR (example_botanist None (Some ''10.1.0.0/16'')) \<noteq> None
   \<and> fst (DeployInfrastructure_variables (scripted_env (Inr infra_state) (Inr ''PayByTraffic''))
            (example_botanist None (Some ''10.1.0.0/16'')) drained_world)
       \<noteq> Panics (NilPointerDereference ''VPC.CIDR'')
   \<and> fst (DeployInfrastructure example_pkg (scripted_env (Inr infra_state) (Inr ''PayByTraffic''))
            (example_botanist None (Some ''10.1.0.0/16'')) drained_world)
       \<noteq> Panics (NilPointerDereference ''VPC.CIDR'')
   \<and> Networks_VPC_ID (example_botanist (Some ''net-123'') None) \<noteq> None
   \<and> fst (DeployInfrastructure example_pkg (scripted_env (Inr infra_state) (Inr ''PayByTraffic''))
            (example_botanist (Some ''net-123'') None) drained_world)
       \<noteq> Panics (NilPointerDereference ''VPC.ID'')"
proof -
  let ?env = "scripted_env (Inr infra_state) (Inr ''PayByTraffic'')"
  have absent: "Networks_VPC_ID (example_botanist None None) = None"
    "Networks_VPC_CIDR (example_botanist None None) = None"
    by (simp_all add: example_botanist_def)
  have present: "Networks_VPC_CIDR (example_botanist None (Some ''10.1.0.0/16'')) \<noteq> None"
    "Networks_VPC_ID (example_botanist (Some ''net-123'') None) \<noteq> None"
    by (simp_all add: example_botanist_def)
  from network_pointer_dereference
         [where b = "example_botanist None None" and k = example_pkg and env = ?env
            and w = drained_world]
    network_pointer_dereference
         [where b = "example_botanist None (Some ''10.1.0.0/16'')" and k = example_pkg
            and env = ?env and w = drained_world]
    network_pointer_dereference
         [where b = "example_botanist (Some ''net-123'') None" and k = example_pkg
            and env = ?env and w = drained_world]
    absent present
  show ?thesis by simp
qed

end
